theory Spec2Isabelle
  imports Complex_Main "HOL-Library.Sublist"
begin

section \<open>JavaScript values\<close>

text \<open>
  The handlers receive a loosely typed argument bag (\<^verbatim>\<open>args: any\<close>), the result of
  \<^verbatim>\<open>JSON.parse\<close>. A value is one of the JSON shapes, or \<^verbatim>\<open>undefined\<close> (what reading a
  missing property gives). A number is carried by its canonical rendering, the text
  \<^verbatim>\<open>String(n)\<close> prints: the handlers only test arguments for truthiness and print them.
  An object is the list of its own properties; a key occurs once.
\<close>

datatype jsval =
    Undefined
  | Null
  | Bool bool
  | Num string
  | Str string
  | Arr "jsval list"
  | Obj "(string \<times> jsval) list"

text \<open>What a rejected promise or a \<^verbatim>\<open>throw\<close> carries: the error class and its message.\<close>

datatype failure =
    Error string
  | TypeError string
  | SyntaxError string

text \<open>\<^verbatim>\<open>ToBoolean\<close>: the falsy values are undefined, null, false, 0, NaN and the empty string.\<close>

fun truthy :: "jsval \<Rightarrow> bool" where
  "truthy Undefined = False"
| "truthy Null = False"
| "truthy (Bool b) = b"
| "truthy (Num s) = (s \<noteq> ''0'' \<and> s \<noteq> ''NaN'')"
| "truthy (Str s) = (s \<noteq> [])"
| "truthy (Arr xs) = True"
| "truthy (Obj kvs) = True"

text \<open>\<^verbatim>\<open>a || b\<close>\<close>

definition js_or :: "jsval \<Rightarrow> jsval \<Rightarrow> jsval" where
  "js_or a b = (if truthy a then a else b)"

text \<open>
  Reading one of the handlers' parameter names off the argument bag, as the destructuring
  pattern \<^verbatim>\<open>{ name, address }\<close> does. None of those names is a member of
  \<^verbatim>\<open>Object.prototype\<close>, \<^verbatim>\<open>Array.prototype\<close> or \<^verbatim>\<open>String.prototype\<close>, so only an object's own
  property can answer.
\<close>

fun property :: "jsval \<Rightarrow> string \<Rightarrow> jsval" where
  "property (Obj kvs) k = (case map_of kvs k of Some v \<Rightarrow> v | None \<Rightarrow> Undefined)"
| "property v k = Undefined"

text \<open>Destructuring \<^verbatim>\<open>null\<close> or \<^verbatim>\<open>undefined\<close> throws a TypeError.\<close>

fun destructurable :: "jsval \<Rightarrow> bool" where
  "destructurable Undefined = False"
| "destructurable Null = False"
| "destructurable v = True"

definition cannot_destructure :: failure where
  "cannot_destructure = TypeError ''Cannot destructure property of null or undefined''"

text \<open>
  \<^verbatim>\<open>ToString\<close>, as a template literal applies it, and \<^verbatim>\<open>Array.prototype.join\<close>. A plain
  object prints as \<^verbatim>\<open>[object Object]\<close> through the inherited \<^verbatim>\<open>toString\<close>; an own property
  of that name (never callable in a parsed value) hides it, and the conversion throws.
\<close>

fun ToString :: "jsval \<Rightarrow> failure + string"
  and join :: "string \<Rightarrow> jsval list \<Rightarrow> failure + string" where
  "ToString Undefined = Inr ''undefined''"
| "ToString Null = Inr ''null''"
| "ToString (Bool b) = Inr (if b then ''true'' else ''false'')"
| "ToString (Num s) = Inr s"
| "ToString (Str s) = Inr s"
| "ToString (Arr xs) = join '','' xs"
| "ToString (Obj kvs) =
     (if ''toString'' \<in> set (map fst kvs)
      then Inl (TypeError ''Cannot convert object to primitive value'')
      else Inr ''[object Object]'')"
| "join sep [] = Inr []"
| "join sep (x # xs) =
     (case (if x = Undefined \<or> x = Null then Inr [] else ToString x) of
        Inl e \<Rightarrow> Inl e
      | Inr s \<Rightarrow>
          (if xs = [] then Inr s
           else (case join sep xs of Inl e \<Rightarrow> Inl e | Inr t \<Rightarrow> Inr (s @ sep @ t))))"

text \<open>
  What \<^verbatim>\<open>join\<close> prints for one element when the conversion succeeds: nothing for
  \<^verbatim>\<open>undefined\<close> and \<^verbatim>\<open>null\<close>, the element's \<^verbatim>\<open>ToString\<close> otherwise.
\<close>

definition printed :: "jsval \<Rightarrow> string" where
  "printed v =
     (case (if v = Undefined \<or> v = Null then Inr [] else ToString v) of
        Inl e \<Rightarrow> []
      | Inr t \<Rightarrow> t)"

text \<open>An element that \<^verbatim>\<open>join\<close> can print: its conversion does not throw.\<close>

definition printable :: "jsval \<Rightarrow> bool" where
  "printable v = (case ToString v of Inl e \<Rightarrow> False | Inr t \<Rightarrow> True)"

text \<open>
  A template literal: the literal chunks with the substitutions between them, each
  substitution converted in turn, the first failure thrown.
\<close>

fun template :: "string list \<Rightarrow> jsval list \<Rightarrow> failure + string" where
  "template (s # ss) (v # vs) =
     (case ToString v of
        Inl e \<Rightarrow> Inl e
      | Inr t \<Rightarrow> (case template ss vs of Inl e \<Rightarrow> Inl e | Inr r \<Rightarrow> Inr (s @ t @ r)))"
| "template (s # ss) [] = Inr s"
| "template [] vs = Inr []"

text \<open>A non-negative integer in decimal, as \<^verbatim>\<open>${data.length}\<close> prints it.\<close>

definition digit :: "nat \<Rightarrow> char" where
  "digit d =
     (if d = 0 then CHR ''0'' else if d = 1 then CHR ''1'' else if d = 2 then CHR ''2''
      else if d = 3 then CHR ''3'' else if d = 4 then CHR ''4'' else if d = 5 then CHR ''5''
      else if d = 6 then CHR ''6'' else if d = 7 then CHR ''7'' else if d = 8 then CHR ''8''
      else CHR ''9'')"

fun dec :: "nat \<Rightarrow> string" where
  "dec n = (if n < 10 then [digit n] else dec (n div 10) @ [digit (n mod 10)])"

declare dec.simps [simp del]

text \<open>
  A JavaScript number is an IEEE 754 double: a finite value, NaN or an infinity (\<open>True\<close>
  for the negative one). A finite double is carried by the real number it stands for; the
  sign of zero is not kept (it would only show in a division by a negative zero, and the
  route divides by a length).
\<close>

datatype number = Finite real | NaN | Infinity bool

text \<open>
  Rounding a real to the nearest double, ties to the even significand: the significand has
  53 bits, so the spacing of the doubles around \<open>x\<close> is \<open>2\<close> to the power
  \<open>\<lfloor>log\<^sub>2 \<bar>x\<bar>\<rfloor> - 52\<close>, and never less than \<open>2\<^sup>-\<^sup>1\<^sup>0\<^sup>7\<^sup>4\<close> (the subnormal range); a result of
  magnitude \<open>2\<^sup>1\<^sup>0\<^sup>2\<^sup>4\<close> or more overflows to an infinity. This is what every arithmetic
  operation does to its exact result, and what decoding a decimal of the store does.
\<close>

definition round_half_even :: "real \<Rightarrow> int" where
  "round_half_even y =
     (let f = \<lfloor>y\<rfloor>
      in if y - of_int f < 1 / 2 then f
         else if 1 / 2 < y - of_int f then f + 1
         else if even f then f else f + 1)"

definition fl :: "real \<Rightarrow> number" where
  "fl x =
     (if x = 0 then Finite 0
      else
        (let e = max (- 1074) (\<lfloor>log 2 \<bar>x\<bar>\<rfloor> - 52);
             r = of_int (round_half_even (x / 2 powr of_int e)) * 2 powr of_int e
         in if 2 ^ 1024 \<le> \<bar>r\<bar> then Infinity (x < 0) else Finite r))"

text \<open>\<^verbatim>\<open>a + b\<close> and \<^verbatim>\<open>a / b\<close> on numbers. Dividing by zero does not throw: it gives NaN or an infinity.\<close>

fun js_add :: "number \<Rightarrow> number \<Rightarrow> number" where
  "js_add (Finite a) (Finite b) = fl (a + b)"
| "js_add NaN y = NaN"
| "js_add x NaN = NaN"
| "js_add (Infinity s) (Infinity t) = (if s = t then Infinity s else NaN)"
| "js_add (Infinity s) (Finite b) = Infinity s"
| "js_add (Finite a) (Infinity t) = Infinity t"

fun js_div :: "number \<Rightarrow> number \<Rightarrow> number" where
  "js_div (Finite a) (Finite b) =
     (if b = 0 then (if a = 0 then NaN else Infinity (a < 0)) else fl (a / b))"
| "js_div NaN y = NaN"
| "js_div x NaN = NaN"
| "js_div (Infinity s) (Infinity t) = NaN"
| "js_div (Infinity s) (Finite b) = Infinity (s \<noteq> (b < 0))"
| "js_div (Finite a) (Infinity t) = Finite 0"

text \<open>\<^verbatim>\<open>value || 0\<close> on a number that may be \<^verbatim>\<open>null\<close>: null, zero and NaN give \<^verbatim>\<open>0\<close>.\<close>

fun or_zero :: "number option \<Rightarrow> number" where
  "or_zero None = Finite 0"
| "or_zero (Some v) = (if v = NaN \<or> v = Finite 0 then Finite 0 else v)"

text \<open>
  \<^verbatim>\<open>Number.prototype.toFixed(2)\<close>: a number that is not finite prints by name; a finite one
  prints the integer \<open>n\<close> for which \<open>n / 100\<close> is nearest to the exact value of the double
  (the larger \<open>n\<close> on a tie), with two decimals. From \<open>10\<^sup>2\<^sup>1\<close> on the method falls back to the
  runtime's number printer, which is a parameter.
\<close>

fun toFixed2 :: "(real \<Rightarrow> string) \<Rightarrow> number \<Rightarrow> string" where
  "toFixed2 number_toString NaN = ''NaN''"
| "toFixed2 number_toString (Infinity negative) =
     (if negative then ''-Infinity'' else ''Infinity'')"
| "toFixed2 number_toString (Finite x) =
     (let s = (if x < 0 then ''-'' else []); a = \<bar>x\<bar> in
      if 10 ^ 21 \<le> a then s @ number_toString a
      else
        (let n = nat \<lfloor>a * 100 + 1 / 2\<rfloor>;
             m = dec n;
             m' = (if length m \<le> 2 then replicate (3 - length m) CHR ''0'' @ m else m)
         in s @ take (length m' - 2) m' @ ''.'' @ drop (length m' - 2) m'))"

section \<open>The completion service and the environment\<close>

text \<open>
  The chat-completion API, typed as far as the route reads it: the optional chaining of
  the source (\<^verbatim>\<open>data.choices?.[0]\<close>, \<^verbatim>\<open>choice?.message?.content\<close>) is the \<open>option\<close> of
  the fields. \<open>None\<close> in \<open>content\<close> is \<^verbatim>\<open>null\<close> or an absent field.
\<close>

record function_call =
  name :: string
  arguments :: string

record message =
  role :: string
  content :: "string option"
  name :: "string option"
  function_call :: "function_call option"

record choice =
  finish_reason :: "string option"
  message :: "message option"

record completion =
  choices :: "choice list option"

record chat_request =
  model :: string
  messages :: "message list"
  functions' :: "string list option"
  temperature :: rat
  max_tokens :: nat

text \<open>
  What \<^verbatim>\<open>await fetch(...)\<close> gives: a rejection (transport error), or a response with its
  \<^verbatim>\<open>ok\<close> flag, its body as text, and its body as decoded by \<^verbatim>\<open>.json()\<close> (\<open>None\<close> when the
  body is not JSON, where \<^verbatim>\<open>.json()\<close> rejects).
\<close>

datatype 'a fetch_result =
    Rejected failure
  | Response bool string "'a option"

text \<open>
  Everything outside the route that it reads: the configured key, the clock (the n-th
  reading of \<^verbatim>\<open>Date.now()\<close> within a handler, in milliseconds), the store's verdict on the
  n-th store operation of a handler (\<open>Some m\<close>: the operation fails with message \<open>m\<close> and
  changes nothing), the completion service, and the runtime's built-ins
  \<^verbatim>\<open>JSON.parse\<close> (\<open>None\<close>: a SyntaxError), \<^verbatim>\<open>JSON.stringify\<close> on a string, the number printer,
  the source text of a native function and the outcome of calling a function inherited from
  \<^verbatim>\<open>Object.prototype\<close> (the \<^verbatim>\<open>JSON.stringify\<close> of what it returns, \<open>None\<close> for
  \<^verbatim>\<open>undefined\<close>).
\<close>

record env =
  api_key :: "string option"
  clock :: "nat \<Rightarrow> int"
  store_error :: "nat \<Rightarrow> string option"
  complete :: "chat_request \<Rightarrow> completion fetch_result"
  JSON_parse :: "string \<Rightarrow> jsval option"
  JSON_stringify :: "string \<Rightarrow> string"
  number_toString :: "real \<Rightarrow> string"
  function_source :: "string \<Rightarrow> string"
  builtin_call :: "string \<Rightarrow> jsval \<Rightarrow> failure + string option"

section \<open>The store\<close>

text \<open>
  The tables the handlers touch. A machine or booking row holds what an insert sent and a
  select returns; timestamps are milliseconds since the epoch (the ISO text the code sends
  orders the same way), and the revenue is the decimal the store holds, or \<^verbatim>\<open>NULL\<close>; a
  select delivers it as the nearest double. The insert-only tables
  hold the inserted object literals. Defaults, coercions and constraints of the store are
  not modelled: a violated constraint is a store error.
\<close>

record machine =
  machine_id :: jsval
  laundromat_id :: jsval
  machine_type :: jsval
  current_status :: jsval
  created_at :: int
  updated_at :: int
  average_monthly_revenue :: "real option"

record booking =
  booking_id :: jsval
  status :: jsval
  created_at :: int

record store =
  participating_laundromats :: "(string \<times> jsval) list list"
  machines :: "machine list"
  users :: "(string \<times> jsval) list list"
  drivers :: "(string \<times> jsval) list list"
  bookings :: "booking list"

text \<open>
  \<^verbatim>\<open>.update(f).<filters p>.select()\<close>: the rows that match are rewritten in place; the
  rewritten rows are returned.
\<close>

definition update_where :: "('r \<Rightarrow> bool) \<Rightarrow> ('r \<Rightarrow> 'r) \<Rightarrow> 'r list \<Rightarrow> 'r list \<times> 'r list" where
  "update_where p f rows = (map (\<lambda>r. if p r then f r else r) rows, map f (filter p rows))"

fun present :: "'a option \<Rightarrow> bool" where
  "present None = False"
| "present (Some x) = True"

type_synonym handler = "env \<Rightarrow> jsval \<Rightarrow> store \<Rightarrow> (failure + string) \<times> store"

definition dq :: string where
  "dq = [CHR 0x22]"

section \<open>The handlers\<close>

text \<open>
  Each handler takes the environment, the argument bag and the store, and returns the
  summary string or the failure it throws, with the store as it leaves it.
\<close>

definition addLaundromat :: handler where
  "addLaundromat env args st =
     (if \<not> destructurable args then (Inl cannot_destructure, st)
      else
        (let nm = property args ''name'';
             address = property args ''address'';
             borough = property args ''borough'';
             phone = property args ''phone''
         in case store_error env 0 of
              Some msg \<Rightarrow> (Inl (Error (''Failed to add laundromat: '' @ msg)), st)
            | None \<Rightarrow>
                (template [''Laundromat '' @ dq, dq @ '' at '', '' ('', '') added successfully.'']
                   [nm, address, borough],
                 st\<lparr>participating_laundromats := participating_laundromats st @
                    [[(''name'', nm), (''address'', address), (''borough'', borough),
                      (''phone'', phone)]]\<rparr>)))"

definition getOfflineMachines :: handler where
  "getOfflineMachines env args st =
     (case store_error env 0 of
        Some msg \<Rightarrow> (Inl (Error (''Failed to get offline machines: '' @ msg)), st)
      | None \<Rightarrow>
          (let data = filter (\<lambda>m. current_status m = Str ''Offline'') (machines st)
           in ((case join '', '' (map machine_id data) of
                  Inl e \<Rightarrow> Inl e
                | Inr ids \<Rightarrow>
                    Inr (''Found '' @ dec (length data) @ '' offline machines: '' @ ids)),
               st)))"

text \<open>
  The row \<^verbatim>\<open>addMachine\<close> sends to the store: two readings of the clock stamp it.
\<close>

definition addMachine_row :: "env \<Rightarrow> jsval \<Rightarrow> machine" where
  "addMachine_row env args =
     \<lparr>machine_id = property args ''machine_id'',
      laundromat_id = property args ''laundromat_id'',
      machine_type = property args ''machine_type'',
      current_status = js_or (property args ''current_status'') (Str ''Available''),
      created_at = clock env 0,
      updated_at = clock env 1,
      average_monthly_revenue = None\<rparr>"

definition addMachine :: handler where
  "addMachine env args st =
     (if \<not> destructurable args then (Inl cannot_destructure, st)
      else
        (case store_error env 0 of
           Some msg \<Rightarrow> (Inl (Error (''Failed to add machine: '' @ msg)), st)
         | None \<Rightarrow>
             (template [''Machine '' @ dq, dq @ '' ('', '') added to laundromat '', ''.'']
                [property args ''machine_id'', property args ''machine_type'',
                 property args ''laundromat_id''],
              st\<lparr>machines := machines st @ [addMachine_row env args]\<rparr>)))"

definition addUser :: handler where
  "addUser env args st =
     (if \<not> destructurable args then (Inl cannot_destructure, st)
      else
        (let full_name = property args ''full_name'';
             email = property args ''email'';
             phone = property args ''phone''
         in case store_error env 0 of
              Some msg \<Rightarrow> (Inl (Error (''Failed to add user: '' @ msg)), st)
            | None \<Rightarrow>
                (template [''User '' @ dq, dq @ '' ('', '') added successfully.'']
                   [full_name, email],
                 st\<lparr>users := users st @
                    [[(''full_name'', full_name), (''email'', email), (''phone'', phone)]]\<rparr>)))"

definition addDriver :: handler where
  "addDriver env args st =
     (if \<not> destructurable args then (Inl cannot_destructure, st)
      else
        (let full_name = property args ''full_name'';
             phone = property args ''phone'';
             email = property args ''email''
         in case store_error env 0 of
              Some msg \<Rightarrow> (Inl (Error (''Failed to add driver: '' @ msg)), st)
            | None \<Rightarrow>
                (template [''Driver '' @ dq, dq @ '' ('', '') added successfully.'']
                   [full_name, phone],
                 st\<lparr>drivers := drivers st @
                    [[(''full_name'', full_name), (''phone'', phone), (''email'', email)]]\<rparr>)))"

definition getPendingBookings :: handler where
  "getPendingBookings env args st =
     (case store_error env 0 of
        Some msg \<Rightarrow> (Inl (Error (''Failed to get pending bookings: '' @ msg)), st)
      | None \<Rightarrow>
          (let data = filter (\<lambda>b. status b = Str ''Pending'') (bookings st)
           in ((case join '', '' (map booking_id data) of
                  Inl e \<Rightarrow> Inl e
                | Inr ids \<Rightarrow>
                    Inr (''Found '' @ dec (length data) @ '' pending bookings: '' @ ids)),
               st)))"

text \<open>Four reads, on machines, bookings, users and drivers; only their errors are looked at.\<close>

definition getSystemHealth :: handler where
  "getSystemHealth env args st =
     (let allHealthy = (\<not> present (store_error env 0) \<and> \<not> present (store_error env 1) \<and>
                        \<not> present (store_error env 2) \<and> \<not> present (store_error env 3))
      in (Inr (if allHealthy then ''System is healthy. All services operational.''
               else ''System issues detected. Some services may be degraded.''), st))"

text \<open>
  The two sweeps of the self-healing routine. Each computes its own cut-off from its own
  reading of the clock; the second runs whatever the first returned.
\<close>

definition stuck :: "int \<Rightarrow> machine \<Rightarrow> bool" where
  "stuck cutoff m = (current_status m = Str ''In Use'' \<and> updated_at m < cutoff)"

definition stale :: "int \<Rightarrow> booking \<Rightarrow> bool" where
  "stale cutoff b = (status b = Str ''Pending'' \<and> booking.created_at b < cutoff)"

definition reset_machines :: "env \<Rightarrow> machine list \<Rightarrow> machine list \<times> machine list" where
  "reset_machines env ms =
     update_where (stuck (clock env 0 - 24 * 60 * 60 * 1000))
       (\<lambda>m. m\<lparr>current_status := Str ''Available''\<rparr>) ms"

definition cancel_bookings :: "env \<Rightarrow> booking list \<Rightarrow> booking list \<times> booking list" where
  "cancel_bookings env bs =
     update_where (stale (clock env 1 - 7 * 24 * 60 * 60 * 1000))
       (\<lambda>b. b\<lparr>status := Str ''Cancelled''\<rparr>) bs"

definition triggerSelfHealing :: handler where
  "triggerSelfHealing env args st =
     (let stuckError = store_error env 0;
          (ms, stuckMachines) =
             (if present stuckError then (machines st, None)
              else (fst (reset_machines env (machines st)),
                    Some (snd (reset_machines env (machines st)))));
          staleError = store_error env 1;
          (bs, staleBookings) =
             (if present staleError then (bookings st, None)
              else (fst (cancel_bookings env (bookings st)),
                    Some (snd (cancel_bookings env (bookings st)))));
          st' = st\<lparr>machines := ms, bookings := bs\<rparr>
      in if present stuckError \<or> present staleError
         then (Inl (Error ''Failed to complete self-healing routine''), st')
         else (Inr (''Self-healing complete. Reset '' @
                    dec (case stuckMachines of None \<Rightarrow> 0 | Some r \<Rightarrow> length r) @
                    '' stuck machines and '' @
                    dec (case staleBookings of None \<Rightarrow> 0 | Some r \<Rightarrow> length r) @
                    '' stale bookings.''), st'))"

text \<open>
  \<^verbatim>\<open>getMachineAnalytics\<close> counts statuses in a plain object used as a dictionary. Reading
  \<^verbatim>\<open>acc[k]\<close> also finds what the object inherits: for a key that names a function of
  \<^verbatim>\<open>Object.prototype\<close>, \<^verbatim>\<open>(acc[k] || 0) + 1\<close> is the function's source text followed by
  \<^verbatim>\<open>1\<close>; for \<^verbatim>\<open>__proto__\<close> the assignment of a string is ignored. \<^verbatim>\<open>Object.entries\<close> lists
  array indices first, in ascending order, then the other keys as they were created.
\<close>

datatype tally = Count nat | Text string

definition Object_prototype_functions :: "string list" where
  "Object_prototype_functions =
     [''constructor'', ''__defineGetter__'', ''__defineSetter__'', ''hasOwnProperty'',
      ''__lookupGetter__'', ''__lookupSetter__'', ''isPrototypeOf'', ''propertyIsEnumerable'',
      ''toString'', ''valueOf'', ''toLocaleString'']"

definition overwrite :: "string \<Rightarrow> tally \<Rightarrow> (string \<times> tally) list \<Rightarrow> (string \<times> tally) list" where
  "overwrite k v acc = map (\<lambda>(k', v'). if k' = k then (k', v) else (k', v')) acc"

definition bump :: "env \<Rightarrow> (string \<times> tally) list \<Rightarrow> string \<Rightarrow> (string \<times> tally) list" where
  "bump env acc k =
     (case map_of acc k of
        Some (Count n) \<Rightarrow> overwrite k (Count (n + 1)) acc
      | Some (Text s) \<Rightarrow> overwrite k (Text (s @ ''1'')) acc
      | None \<Rightarrow>
          if k = ''__proto__'' then acc
          else if k \<in> set Object_prototype_functions
          then acc @ [(k, Text (function_source env k @ ''1''))]
          else acc @ [(k, Count 1)])"

fun reduce_statuses ::
  "env \<Rightarrow> (string \<times> tally) list \<Rightarrow> jsval list \<Rightarrow> failure + (string \<times> tally) list" where
  "reduce_statuses env acc [] = Inr acc"
| "reduce_statuses env acc (v # vs) =
     (case ToString v of
        Inl e \<Rightarrow> Inl e
      | Inr k \<Rightarrow> reduce_statuses env (bump env acc k) vs)"

definition array_index :: "string \<Rightarrow> nat option" where
  "array_index k =
     (let n = foldl (\<lambda>a c. 10 * a + (of_char c - 48)) 0 k
      in if list_all (\<lambda>c. c \<in> set ''0123456789'') k \<and> dec n = k \<and> n < 2 ^ 32 - 1
         then Some n else None)"

definition entries :: "(string \<times> tally) list \<Rightarrow> (string \<times> tally) list" where
  "entries acc =
     sort_key (\<lambda>(k, v). case array_index k of Some n \<Rightarrow> n | None \<Rightarrow> 0)
       (filter (\<lambda>(k, v). present (array_index k)) acc) @
     filter (\<lambda>(k, v). \<not> present (array_index k)) acc"

fun join_strings :: "string \<Rightarrow> string list \<Rightarrow> string" where
  "join_strings sep [] = []"
| "join_strings sep [x] = x"
| "join_strings sep (x # y # ys) = x @ sep @ join_strings sep (y # ys)"

text \<open>
  The \<^verbatim>\<open>.then\<close> callback reads \<^verbatim>\<open>data\<close> alone. When the store fails, \<^verbatim>\<open>data\<close> is
  \<^verbatim>\<open>null\<close> and \<^verbatim>\<open>data.reduce\<close> throws a TypeError; the store's error is dropped. When the
  store answers, the callback returns \<^verbatim>\<open>error: null\<close>, so the check after it never fires.
\<close>

definition getMachineAnalytics :: handler where
  "getMachineAnalytics env args st =
     (case store_error env 0 of
        Some msg \<Rightarrow> (Inl (TypeError ''Cannot read properties of null (reading reduce)''), st)
      | None \<Rightarrow>
          ((case reduce_statuses env [] (map current_status (machines st)) of
              Inl e \<Rightarrow> Inl e
            | Inr statusCounts \<Rightarrow>
                Inr (''Machine Status Distribution: '' @
                     join_strings '', ''
                       (map (\<lambda>(status, count).
                               status @ '': '' @ (case count of Count n \<Rightarrow> dec n | Text t \<Rightarrow> t))
                          (entries statusCounts)))),
           st))"

definition getRevenueAnalytics :: handler where
  "getRevenueAnalytics env args st =
     (case store_error env 0 of
        Some msg \<Rightarrow> (Inl (Error (''Failed to get revenue analytics: '' @ msg)), st)
      | None \<Rightarrow>
          (let data = filter (\<lambda>m. present (average_monthly_revenue m)) (machines st);
               totalRevenue =
                 foldl (\<lambda>sum m. js_add sum (or_zero (map_option fl (average_monthly_revenue m))))
                   (Finite 0) data;
               avgRevenue =
                 js_div totalRevenue
                   (Finite (real (if length data = 0 then 1 else length data)))
           in (Inr (''Total Monthly Revenue: $'' @ toFixed2 (number_toString env) totalRevenue @
                    '', Average per Machine: $'' @ toFixed2 (number_toString env) avgRevenue),
               st)))"

section \<open>The function registry\<close>

definition function_names :: "string list" where
  "function_names =
     [''addLaundromat'', ''addMachine'', ''addUser'', ''addDriver'', ''getOfflineMachines'',
      ''getPendingBookings'', ''getSystemHealth'', ''triggerSelfHealing'',
      ''getMachineAnalytics'', ''getRevenueAnalytics'']"

text \<open>The own properties of the object literal \<^verbatim>\<open>functionMap\<close>.\<close>

definition functionMap :: "string \<Rightarrow> handler option" where
  "functionMap =
     map_of
       [(''addLaundromat'', addLaundromat),
        (''addMachine'', addMachine),
        (''addUser'', addUser),
        (''addDriver'', addDriver),
        (''getOfflineMachines'', getOfflineMachines),
        (''getPendingBookings'', getPendingBookings),
        (''getSystemHealth'', getSystemHealth),
        (''triggerSelfHealing'', triggerSelfHealing),
        (''getMachineAnalytics'', getMachineAnalytics),
        (''getRevenueAnalytics'', getRevenueAnalytics)]"

text \<open>
  The property read \<^verbatim>\<open>functionMap[name]\<close>. \<^verbatim>\<open>functionMap\<close> is a plain object, so a name
  it does not own is looked up in \<^verbatim>\<open>Object.prototype\<close>: eleven names give a built-in
  function, and \<^verbatim>\<open>__proto__\<close> gives \<^verbatim>\<open>Object.prototype\<close> itself, an object that is not
  callable. All of these are truthy.
\<close>

datatype member =
    Own handler
  | Inherited_function string
  | Inherited_object
  | Missing

definition functionMap_get :: "string \<Rightarrow> member" where
  "functionMap_get nm =
     (case functionMap nm of
        Some h \<Rightarrow> Own h
      | None \<Rightarrow>
          if nm \<in> set Object_prototype_functions then Inherited_function nm
          else if nm = ''__proto__'' then Inherited_object
          else Missing)"

text \<open>
  \<^verbatim>\<open>await functionMap[name](parsedArgs)\<close>, followed by the \<^verbatim>\<open>JSON.stringify(result)\<close> that
  becomes the content of the function-result turn.
\<close>

fun invoke :: "env \<Rightarrow> member \<Rightarrow> jsval \<Rightarrow> store \<Rightarrow> (failure + string option) \<times> store" where
  "invoke env (Own h) args st =
     (case h env args st of
        (Inl e, st') \<Rightarrow> (Inl e, st')
      | (Inr s, st') \<Rightarrow> (Inr (Some (JSON_stringify env s)), st'))"
| "invoke env (Inherited_function nm) args st =
     (if nm = ''toString'' \<or> nm = ''toLocaleString''
      then (Inr (Some (JSON_stringify env ''[object Object]'')), st)
      else (builtin_call env nm args, st))"
| "invoke env Inherited_object args st =
     (Inl (TypeError ''functionMap[name] is not a function''), st)"
| "invoke env Missing args st =
     (Inl (TypeError ''functionMap[name] is not a function''), st)"

section \<open>The dispatch loop\<close>

text \<open>
  A turn of the conversation as the client keeps it, and the body of the request the client
  posts. \<open>None\<close> for the history is an absent or \<^verbatim>\<open>null\<close> field.
\<close>

record turn =
  role :: string
  content :: string

record request =
  query :: string
  history :: "turn list option"

text \<open>
  What the route hands back: a reply, an error response with its status, or a failure that
  leaves the route unhandled. With it, the store as the request leaves it, the calls
  \<^verbatim>\<open>functionMap[name](parsedArgs)\<close> the route evaluated (name and arguments, also when the
  call throws), and the completion requests sent, in order.
\<close>

datatype outcome =
    Reply string
  | Failed_response string nat
  | Unhandled failure

record result =
  outcome :: outcome
  store_after :: store
  invoked :: "(string \<times> jsval) list"
  requests :: "chat_request list"

definition system_prompt :: string where
  "system_prompt = ''You are an agentic admin assistant for a laundromat platform. Answer questions, execute admin actions, and help the user manage the system.''"

definition plain :: "string \<Rightarrow> string \<Rightarrow> message" where
  "plain r c = \<lparr>message.role = r, message.content = Some c, name = None, function_call = None\<rparr>"

definition build_messages :: "request \<Rightarrow> message list" where
  "build_messages req =
     plain ''system'' system_prompt #
     map (\<lambda>m. plain (if turn.role m = ''agent'' then ''assistant'' else turn.role m)
                 (turn.content m))
       (case history req of None \<Rightarrow> [] | Some h \<Rightarrow> h) @
     [plain ''user'' (query req)]"

text \<open>\<^verbatim>\<open>data.choices?.[0]\<close> and \<^verbatim>\<open>choice?.message?.content\<close>\<close>

definition first_choice :: "completion \<Rightarrow> choice option" where
  "first_choice data =
     (case choices data of None \<Rightarrow> None | Some [] \<Rightarrow> None | Some (c # cs) \<Rightarrow> Some c)"

definition content_of :: "choice option \<Rightarrow> string option" where
  "content_of ch =
     (case ch of
        None \<Rightarrow> None
      | Some c \<Rightarrow> (case message c of None \<Rightarrow> None | Some m \<Rightarrow> message.content m))"

text \<open>\<^verbatim>\<open>content || fallback\<close> on a string that may be absent\<close>

definition or_else :: "string option \<Rightarrow> string \<Rightarrow> string" where
  "or_else c fallback = (case c of None \<Rightarrow> fallback | Some t \<Rightarrow> if t = [] then fallback else t)"

text \<open>
  The function-call signal:
  \<^verbatim>\<open>choice?.finish_reason === 'function_call' && choice.message?.function_call\<close>
\<close>

definition signalled :: "choice option \<Rightarrow> function_call option" where
  "signalled ch =
     (case ch of
        None \<Rightarrow> None
      | Some c \<Rightarrow>
          if finish_reason c = Some ''function_call''
          then (case message c of None \<Rightarrow> None | Some m \<Rightarrow> function_call m)
          else None)"

definition first_request :: "request \<Rightarrow> chat_request" where
  "first_request req =
     \<lparr>model = ''gpt-4-0613'', messages = build_messages req,
      functions' = Some function_names, temperature = 2 / 10, max_tokens = 512\<rparr>"

definition followup_request ::
  "request \<Rightarrow> function_call \<Rightarrow> string option \<Rightarrow> chat_request" where
  "followup_request req fc result_json =
     \<lparr>model = ''gpt-4-0613'',
      messages = build_messages req @
        [\<lparr>message.role = ''assistant'', message.content = None, name = None,
          function_call = Some fc\<rparr>,
         \<lparr>message.role = ''function'', message.content = result_json,
          name = Some (function_call.name fc), function_call = None\<rparr>],
      functions' = None, temperature = 2 / 10, max_tokens = 512\<rparr>"

text \<open>The last two lines of the route: the reply when no function was dispatched.\<close>

definition fall_through :: "choice option \<Rightarrow> store \<Rightarrow> chat_request list \<Rightarrow> result" where
  "fall_through ch st reqs =
     \<lparr>outcome = Reply (or_else (content_of ch) ''Sorry, I could not generate a response.''),
      store_after = st, invoked = [], requests = reqs\<rparr>"

text \<open>
  The body of \<^verbatim>\<open>if (functionMap[name])\<close>: parse the arguments (a failure leaves the empty
  object), call what the lookup found, send the result to the completion service, relay
  its answer. The second response is decoded whatever its status.
\<close>

definition dispatch :: "env \<Rightarrow> request \<Rightarrow> function_call \<Rightarrow> member \<Rightarrow> store \<Rightarrow> result" where
  "dispatch env req fc mem st =
     (let parsedArgs = (case JSON_parse env (arguments fc) of None \<Rightarrow> Obj [] | Some v \<Rightarrow> v);
          calls = [(function_call.name fc, parsedArgs)]
      in case invoke env mem parsedArgs st of
           (Inl e, st') \<Rightarrow>
             \<lparr>outcome = Unhandled e, store_after = st', invoked = calls,
              requests = [first_request req]\<rparr>
         | (Inr result_json, st') \<Rightarrow>
             (let followup = followup_request req fc result_json;
                  reqs = [first_request req, followup]
              in case complete env followup of
                   Rejected e \<Rightarrow>
                     \<lparr>outcome = Unhandled e, store_after = st', invoked = calls,
                      requests = reqs\<rparr>
                 | Response ok body None \<Rightarrow>
                     \<lparr>outcome = Unhandled (SyntaxError ''Unexpected token in JSON''),
                      store_after = st', invoked = calls, requests = reqs\<rparr>
                 | Response ok body (Some followupData) \<Rightarrow>
                     \<lparr>outcome = Reply (or_else (content_of (first_choice followupData))
                                         ''Action completed.''),
                      store_after = st', invoked = calls, requests = reqs\<rparr>))"

definition POST :: "env \<Rightarrow> request \<Rightarrow> store \<Rightarrow> result" where
  "POST env req st =
     (if (case api_key env of None \<Rightarrow> True | Some apiKey \<Rightarrow> apiKey = [])
      then \<lparr>outcome = Failed_response ''Missing OpenAI API key'' 500, store_after = st,
            invoked = [], requests = []\<rparr>
      else
        (case complete env (first_request req) of
           Rejected e \<Rightarrow>
             \<lparr>outcome = Unhandled e, store_after = st, invoked = [],
              requests = [first_request req]\<rparr>
         | Response ok body decoded \<Rightarrow>
             if \<not> ok
             then \<lparr>outcome = Failed_response body 500, store_after = st, invoked = [],
                   requests = [first_request req]\<rparr>
             else
               (case decoded of
                  None \<Rightarrow>
                    \<lparr>outcome = Unhandled (SyntaxError ''Unexpected token in JSON''),
                     store_after = st, invoked = [], requests = [first_request req]\<rparr>
                | Some data \<Rightarrow>
                    (let choice = first_choice data
                     in case signalled choice of
                          None \<Rightarrow> fall_through choice st [first_request req]
                        | Some fc \<Rightarrow>
                            (case functionMap_get (function_call.name fc) of
                               Missing \<Rightarrow> fall_through choice st [first_request req]
                             | mem \<Rightarrow> dispatch env req fc mem st)))))"

section \<open>The chat client\<close>

text \<open>The body of the route's response, as far as the client reads it.\<close>

record reply_body =
  reply :: "string option"

definition agentChat ::
  "(string \<Rightarrow> turn list \<Rightarrow> reply_body fetch_result) \<Rightarrow> string \<Rightarrow> turn list \<Rightarrow> failure + string" where
  "agentChat fetch q h =
     (case fetch q h of
        Rejected e \<Rightarrow> Inl e
      | Response ok body decoded \<Rightarrow>
          if \<not> ok then Inr ''Sorry, there was an error contacting the agent.''
          else (case decoded of
                  None \<Rightarrow> Inl (SyntaxError ''Unexpected token in JSON'')
                | Some data \<Rightarrow> Inr (or_else (reply data) ''Sorry, I could not generate a response.'')))"

record widget =
  is_open :: bool
  input :: string
  loading :: bool
  history :: "turn list"

text \<open>
  \<^verbatim>\<open>!input.trim()\<close>: the input is empty once its white space is trimmed, that is, every
  character of it is white space (of the characters a byte holds: tab, line feed, vertical
  tab, form feed, carriage return, space and the no-break space).
\<close>

definition blank :: "string \<Rightarrow> bool" where
  "blank t = list_all (\<lambda>c. c \<in> set [CHR 0x09, CHR 0x0A, CHR 0x0B, CHR 0x0C, CHR 0x0D, CHR 0x20, CHR 0xA0]) t"

text \<open>
  One submission, run to the end of \<^verbatim>\<open>sendMessage\<close>. The state updates before the
  \<^verbatim>\<open>await\<close> are applied; when \<^verbatim>\<open>agentChat\<close> rejects, nothing catches it and the two
  updates after the \<^verbatim>\<open>await\<close> never run. The result is the uncaught failure, if any, and
  the widget's state.
\<close>

definition sendMessage ::
  "(string \<Rightarrow> turn list \<Rightarrow> reply_body fetch_result) \<Rightarrow> widget \<Rightarrow> failure option \<times> widget" where
  "sendMessage fetch w =
     (if blank (input w) then (None, w)
      else
        (let userMsg = \<lparr>turn.role = ''user'', turn.content = input w\<rparr>;
             w1 = w\<lparr>widget.history := widget.history w @ [userMsg], input := [], loading := True\<rparr>
         in case agentChat fetch (input w) (widget.history w @ [userMsg]) of
              Inl e \<Rightarrow> (Some e, w1)
            | Inr agentReply \<Rightarrow>
                (None,
                 w1\<lparr>widget.history := widget.history w1 @
                       [\<lparr>turn.role = ''agent'', turn.content = agentReply\<rparr>],
                    loading := False\<rparr>)))"

section \<open>Concrete inputs\<close>

text \<open>
  An environment in which the store answers every operation, and a store with one machine
  in use since 25 hours, one in use since one hour, one offline machine, one booking
  pending since eight days and one pending since one day.
\<close>

definition example_env :: env where
  "example_env =
     \<lparr>api_key = Some ''sk-test'',
      clock = (\<lambda>n. 1700000000000 + int n),
      store_error = (\<lambda>n. None),
      complete = (\<lambda>r. Rejected (TypeError ''fetch failed'')),
      JSON_parse = (\<lambda>t. if t = ''{}'' then Some (Obj []) else None),
      JSON_stringify = (\<lambda>t. dq @ t @ dq),
      number_toString = (\<lambda>x. ''1e+21''),
      function_source = (\<lambda>k. ''function '' @ k @ ''() { [native code] }''),
      builtin_call = (\<lambda>k a. Inr None)\<rparr>"

definition example_store :: store where
  "example_store =
     \<lparr>participating_laundromats = [],
      machines =
        [\<lparr>machine_id = Str ''W1'', laundromat_id = Str ''L1'', machine_type = Str ''Washer'',
          current_status = Str ''In Use'', created_at = 1600000000000,
          updated_at = 1700000000000 - 25 * 60 * 60 * 1000,
          average_monthly_revenue = None\<rparr>,
         \<lparr>machine_id = Str ''W2'', laundromat_id = Str ''L1'', machine_type = Str ''Washer'',
          current_status = Str ''In Use'', created_at = 1600000000000,
          updated_at = 1700000000000 - 60 * 60 * 1000,
          average_monthly_revenue = Some 120\<rparr>,
         \<lparr>machine_id = Str ''D1'', laundromat_id = Str ''L1'', machine_type = Str ''Dryer'',
          current_status = Str ''Offline'', created_at = 1600000000000,
          updated_at = 1600000000000,
          average_monthly_revenue = Some 80\<rparr>],
      users = [],
      drivers = [],
      bookings =
        [\<lparr>booking_id = Str ''B1'', status = Str ''Pending'',
          created_at = 1700000000000 - 8 * 24 * 60 * 60 * 1000\<rparr>,
         \<lparr>booking_id = Str ''B2'', status = Str ''Pending'',
          created_at = 1700000000000 - 24 * 60 * 60 * 1000\<rparr>]\<rparr>"

text \<open>A store whose two machines earn one cent and two cents a month.\<close>

definition cents_store :: store where
  "cents_store =
     example_store\<lparr>machines :=
        [(machines example_store ! 1)\<lparr>average_monthly_revenue := Some (1 / 100)\<rparr>,
         (machines example_store ! 2)\<lparr>average_monthly_revenue := Some (2 / 100)\<rparr>]\<rparr>"

text \<open>
  Environments in which one store operation alone fails: the second, and the fourth.
\<close>

definition second_fails :: env where
  "second_fails = example_env\<lparr>store_error := (\<lambda>n. if n = 1 then Some ''deadlock'' else None)\<rparr>"

definition fourth_fails :: env where
  "fourth_fails = example_env\<lparr>store_error := (\<lambda>n. if n = 3 then Some ''timeout'' else None)\<rparr>"

text \<open>The same environment with the store refusing every operation.\<close>

definition store_down :: env where
  "store_down = example_env\<lparr>store_error := (\<lambda>n. Some ''connection refused'')\<rparr>"

text \<open>
  Completion responses: a plain answer, and a function-call signal. An environment whose
  completion service signals a call of the given function with the given payload on the
  first request (the one that carries the schemas) and answers \<^verbatim>\<open>Done.\<close> on the second.
\<close>

definition text_response :: "string option \<Rightarrow> completion fetch_result" where
  "text_response c =
     Response True []
       (Some \<lparr>choices = Some
          [\<lparr>finish_reason = Some ''stop'',
            message = Some \<lparr>message.role = ''assistant'', message.content = c, name = None,
                            function_call = None\<rparr>\<rparr>]\<rparr>)"

definition call_response :: "string \<Rightarrow> string \<Rightarrow> completion fetch_result" where
  "call_response nm payload =
     Response True []
       (Some \<lparr>choices = Some
          [\<lparr>finish_reason = Some ''function_call'',
            message = Some \<lparr>message.role = ''assistant'', message.content = None, name = None,
                            function_call = Some \<lparr>function_call.name = nm,
                                                  arguments = payload\<rparr>\<rparr>\<rparr>]\<rparr>)"

definition model_calls :: "string \<Rightarrow> string \<Rightarrow> env" where
  "model_calls nm payload =
     example_env\<lparr>complete :=
       (\<lambda>r. if present (functions' r) then call_response nm payload
            else text_response (Some ''Done.''))\<rparr>"

definition model_answers :: "string option \<Rightarrow> env" where
  "model_answers c = example_env\<lparr>complete := (\<lambda>r. text_response c)\<rparr>"

definition example_request :: request where
  "example_request = \<lparr>query = ''Which machines are offline?'', history = Some []\<rparr>"

definition example_widget :: widget where
  "example_widget = \<lparr>is_open = True, input = ''hello'', loading = False, history = []\<rparr>"

section \<open>Properties\<close>

subsection \<open>Auxiliary facts\<close>

lemma dec_small: "n < 10 \<Longrightarrow> dec n = [digit n]"
  by (simp add: dec.simps)

lemma toFixed2_zero: "toFixed2 f (Finite 0) = ''0.00''"
  by (simp add: dec_small digit_def Let_def)

lemma fl_zero: "fl 0 = Finite 0"
  by (simp add: fl_def)

lemma fl_not_NaN: "fl x \<noteq> NaN"
  by (simp add: fl_def Let_def)

lemma or_zero_fl: "or_zero (Some (fl x)) = fl x"
  using fl_not_NaN [of x] by auto

lemma round_half_even_near: "\<bar>of_int (round_half_even y) - y\<bar> \<le> 1"
  unfolding round_half_even_def Let_def by (auto simp: abs_if) linarith+

text \<open>
  Rounding a value whose significand, counted in units of \<open>2\<^sup>-\<^sup>j\<close>, has 53 bits: the
  nearest double is the rounded count of units.
\<close>

lemma fl_below_one:
  assumes "2 ^ 52 \<le> \<bar>x\<bar> * 2 ^ j" and "\<bar>x\<bar> * 2 ^ j < 2 ^ 53" and "j \<le> 1074"
    and "round_half_even (x * 2 ^ j) = n"
  shows "fl x = Finite (of_int n / 2 ^ j)"
proof -
  have x0: "x \<noteq> 0" using assms(1) by auto
  have pos: "0 < \<bar>x\<bar>" using x0 by simp
  have p: "2 powr (of_int (52 - int j)) = 2 ^ 52 / (2 ^ j :: real)"
    by (simp add: powr_diff powr_realpow flip: powr_numeral)
  have p1: "2 powr (of_int (52 - int j) + 1) = 2 ^ 53 / (2 ^ j :: real)"
    by (simp add: powr_diff powr_add powr_realpow flip: powr_numeral)
  have "2 powr (of_int (52 - int j)) \<le> \<bar>x\<bar>"
    unfolding p using assms(1) by (simp add: field_simps)
  moreover have "\<bar>x\<bar> < 2 powr (of_int (52 - int j) + 1)"
    unfolding p1 using assms(2) by (simp add: field_simps)
  ultimately have fl: "\<lfloor>log 2 \<bar>x\<bar>\<rfloor> = 52 - int j"
    using floor_log_eq_powr_iff [of "\<bar>x\<bar>" 2 "52 - int j"] pos by simp
  have e: "max (- 1074) (\<lfloor>log 2 \<bar>x\<bar>\<rfloor> - 52) = - int j"
    unfolding fl using assms(3) by simp
  have u: "2 powr of_int (- int j) = 1 / (2 ^ j :: real)"
    by (simp add: powr_minus powr_realpow field_simps)
  have r: "round_half_even (x / (1 / 2 ^ j)) = n"
    using assms(4) by simp
  have small: "\<bar>real_of_int n / 2 ^ j\<bar> < 2 ^ 1024"
  proof -
    have "\<bar>real_of_int n\<bar> \<le> \<bar>x * 2 ^ j\<bar> + 1"
      using round_half_even_near [of "x * 2 ^ j"] assms(4) by linarith
    also have "\<dots> = \<bar>x\<bar> * 2 ^ j + 1" by (simp add: abs_mult)
    also have "\<dots> < 2 ^ 53 + 1" using assms(2) by simp
    finally have n: "\<bar>real_of_int n\<bar> < 2 ^ 53 + 1" .
    have "\<bar>real_of_int n / 2 ^ j\<bar> = \<bar>real_of_int n\<bar> / 2 ^ j" by simp
    also have "\<dots> \<le> \<bar>real_of_int n\<bar>"
    proof -
      have "(1::real) \<le> 2 ^ j" by simp
      then have "\<bar>real_of_int n\<bar> * 1 \<le> \<bar>real_of_int n\<bar> * 2 ^ j"
        by (intro mult_left_mono) simp_all
      then show ?thesis by (simp add: field_simps)
    qed
    finally have "\<bar>real_of_int n / 2 ^ j\<bar> \<le> \<bar>real_of_int n\<bar>" .
    with n have "\<bar>real_of_int n / 2 ^ j\<bar> < 2 ^ 53 + 1" by linarith
    also have "(2 ^ 53 + 1 :: real) < 2 ^ 1024" by simp
    finally show ?thesis .
  qed
  have small': "\<not> 2 ^ 1024 \<le> \<bar>real_of_int n * (1 / 2 ^ j)\<bar>"
    using small by (simp add: not_le)
  show ?thesis
    unfolding fl_def Let_def e u r by (simp only: x0 small' if_False) simp
qed

text \<open>Without the guard on the denominator the mean of no machines would print as NaN.\<close>

lemma mean_without_guard:
  "toFixed2 f (js_div (Finite 0) (Finite (real (length ([] :: machine list))))) = ''NaN''"
  by simp

lemma present_iff: "present x \<longleftrightarrow> x \<noteq> None"
  by (cases x) simp_all

lemma machines_after_healing:
  "machines (snd (triggerSelfHealing env args st)) =
     (if present (store_error env 0) then machines st
      else fst (reset_machines env (machines st)))"
  by (simp add: triggerSelfHealing_def Let_def split: prod.splits)

lemma bookings_after_healing:
  "bookings (snd (triggerSelfHealing env args st)) =
     (if present (store_error env 1) then bookings st
      else fst (cancel_bookings env (bookings st)))"
  by (simp add: triggerSelfHealing_def Let_def split: prod.splits)

lemma healing_fails:
  "present (store_error env 0) \<or> present (store_error env 1) \<Longrightarrow>
   fst (triggerSelfHealing env args st) = Inl (Error ''Failed to complete self-healing routine'')"
  by (auto simp add: triggerSelfHealing_def Let_def split: prod.splits)

lemma fst_update_where: "fst (update_where p f rows) = map (\<lambda>r. if p r then f r else r) rows"
  by (simp add: update_where_def)

subsection \<open>The self-healing sweep\<close>

text \<open>
  Claim C1. When the store carries out the machine update, every machine row whose
  \<open>current_status\<close> is \<^verbatim>\<open>In Use\<close> and whose \<open>updated_at\<close> lies more than 24 hours before the
  clock reading of the sweep has its \<open>current_status\<close> set to \<^verbatim>\<open>Available\<close> and is otherwise
  kept, and every other machine row (updated more recently, or in another status) is left
  as it was. Likewise, when the store carries out the booking update, every booking row
  with \<open>status\<close> \<^verbatim>\<open>Pending\<close> and \<open>created_at\<close> more than 7 days back becomes \<^verbatim>\<open>Cancelled\<close>, and
  every other booking row is unchanged. Each sweep is applied whatever the fate of the
  other.
\<close>

theorem self_healing_sweeps:
  "(store_error env 0 = None \<longrightarrow>
      length (machines (snd (triggerSelfHealing env args st))) = length (machines st)
      \<and> (\<forall>i < length (machines st).
            let m = machines st ! i; m' = machines (snd (triggerSelfHealing env args st)) ! i
            in (current_status m = Str ''In Use'' \<and>
                  updated_at m < clock env 0 - 24 * 60 * 60 * 1000
                  \<longrightarrow> m' = m\<lparr>current_status := Str ''Available''\<rparr>)
             \<and> (current_status m \<noteq> Str ''In Use'' \<or>
                  clock env 0 - 24 * 60 * 60 * 1000 \<le> updated_at m
                  \<longrightarrow> m' = m)))
   \<and> (store_error env 1 = None \<longrightarrow>
      length (bookings (snd (triggerSelfHealing env args st))) = length (bookings st)
      \<and> (\<forall>i < length (bookings st).
            let b = bookings st ! i; b' = bookings (snd (triggerSelfHealing env args st)) ! i
            in (status b = Str ''Pending'' \<and>
                  booking.created_at b < clock env 1 - 7 * 24 * 60 * 60 * 1000
                  \<longrightarrow> b' = b\<lparr>status := Str ''Cancelled''\<rparr>)
             \<and> (status b \<noteq> Str ''Pending'' \<or>
                  clock env 1 - 7 * 24 * 60 * 60 * 1000 \<le> booking.created_at b
                  \<longrightarrow> b' = b)))"
proof (intro conjI impI)
  assume ok: "store_error env 0 = None"
  have ms: "machines (snd (triggerSelfHealing env args st)) =
      map (\<lambda>m. if stuck (clock env 0 - 24 * 60 * 60 * 1000) m
                then m\<lparr>current_status := Str ''Available''\<rparr> else m) (machines st)"
    using ok by (simp add: machines_after_healing reset_machines_def fst_update_where)
  show "length (machines (snd (triggerSelfHealing env args st))) = length (machines st)"
    by (simp add: ms)
  show "\<forall>i < length (machines st).
            let m = machines st ! i; m' = machines (snd (triggerSelfHealing env args st)) ! i
            in (current_status m = Str ''In Use'' \<and>
                  updated_at m < clock env 0 - 24 * 60 * 60 * 1000
                  \<longrightarrow> m' = m\<lparr>current_status := Str ''Available''\<rparr>)
             \<and> (current_status m \<noteq> Str ''In Use'' \<or>
                  clock env 0 - 24 * 60 * 60 * 1000 \<le> updated_at m
                  \<longrightarrow> m' = m)"
    unfolding ms Let_def by (auto simp: stuck_def)
next
  assume ok: "store_error env 1 = None"
  have bs: "bookings (snd (triggerSelfHealing env args st)) =
      map (\<lambda>b. if stale (clock env 1 - 7 * 24 * 60 * 60 * 1000) b
                then b\<lparr>status := Str ''Cancelled''\<rparr> else b) (bookings st)"
    using ok by (simp add: bookings_after_healing cancel_bookings_def fst_update_where)
  show "length (bookings (snd (triggerSelfHealing env args st))) = length (bookings st)"
    by (simp add: bs)
  show "\<forall>i < length (bookings st).
            let b = bookings st ! i; b' = bookings (snd (triggerSelfHealing env args st)) ! i
            in (status b = Str ''Pending'' \<and>
                  booking.created_at b < clock env 1 - 7 * 24 * 60 * 60 * 1000
                  \<longrightarrow> b' = b\<lparr>status := Str ''Cancelled''\<rparr>)
             \<and> (status b \<noteq> Str ''Pending'' \<or>
                  clock env 1 - 7 * 24 * 60 * 60 * 1000 \<le> booking.created_at b
                  \<longrightarrow> b' = b)"
    unfolding bs Let_def by (auto simp: stale_def)
qed

theorem self_healing_sweeps_witness:
  "machines (snd (triggerSelfHealing example_env (Obj []) example_store)) ! 0 =
     (machines example_store ! 0)\<lparr>current_status := Str ''Available''\<rparr>
   \<and> machines (snd (triggerSelfHealing example_env (Obj []) example_store)) ! 1 =
     machines example_store ! 1
   \<and> bookings (snd (triggerSelfHealing example_env (Obj []) example_store)) ! 0 =
     (bookings example_store ! 0)\<lparr>status := Str ''Cancelled''\<rparr>
   \<and> bookings (snd (triggerSelfHealing example_env (Obj []) example_store)) ! 1 =
     bookings example_store ! 1"
proof -
  note t = self_healing_sweeps [of example_env "Obj []" example_store]
  have ok0: "store_error example_env 0 = None" and ok1: "store_error example_env 1 = None"
    by (simp_all add: example_env_def)
  from t ok0 have m: "\<forall>i < length (machines example_store).
            let m = machines example_store ! i;
                m' = machines (snd (triggerSelfHealing example_env (Obj []) example_store)) ! i
            in (current_status m = Str ''In Use'' \<and>
                  updated_at m < clock example_env 0 - 24 * 60 * 60 * 1000
                  \<longrightarrow> m' = m\<lparr>current_status := Str ''Available''\<rparr>)
             \<and> (current_status m \<noteq> Str ''In Use'' \<or>
                  clock example_env 0 - 24 * 60 * 60 * 1000 \<le> updated_at m
                  \<longrightarrow> m' = m)"
    by blast
  from t ok1 have b: "\<forall>i < length (bookings example_store).
            let b = bookings example_store ! i;
                b' = bookings (snd (triggerSelfHealing example_env (Obj []) example_store)) ! i
            in (status b = Str ''Pending'' \<and>
                  booking.created_at b < clock example_env 1 - 7 * 24 * 60 * 60 * 1000
                  \<longrightarrow> b' = b\<lparr>status := Str ''Cancelled''\<rparr>)
             \<and> (status b \<noteq> Str ''Pending'' \<or>
                  clock example_env 1 - 7 * 24 * 60 * 60 * 1000 \<le> booking.created_at b
                  \<longrightarrow> b' = b)"
    by blast
  have len: "length (machines example_store) = 3" "length (bookings example_store) = 2"
    by (simp_all add: example_store_def)
  have m0: "machines (snd (triggerSelfHealing example_env (Obj []) example_store)) ! 0 =
     (machines example_store ! 0)\<lparr>current_status := Str ''Available''\<rparr>"
    using m [rule_format, of 0] by (simp add: len Let_def example_env_def example_store_def)
  have m1: "machines (snd (triggerSelfHealing example_env (Obj []) example_store)) ! 1 =
     machines example_store ! 1"
    using m [rule_format, of 1] by (simp add: len Let_def example_env_def example_store_def)
  have b0: "bookings (snd (triggerSelfHealing example_env (Obj []) example_store)) ! 0 =
     (bookings example_store ! 0)\<lparr>status := Str ''Cancelled''\<rparr>"
    using b [rule_format, of 0] by (simp add: len Let_def example_env_def example_store_def)
  have b1: "bookings (snd (triggerSelfHealing example_env (Obj []) example_store)) ! 1 =
     bookings example_store ! 1"
    using b [rule_format, of 1] by (simp add: len Let_def example_env_def example_store_def)
  show ?thesis using m0 m1 b0 b1 by simp
qed

text \<open>
  Claim C2. If either of the two updates fails at the store layer, \<^verbatim>\<open>triggerSelfHealing\<close>
  fails with the one fixed message and returns no summary (no counts), whichever update
  failed; the update that did succeed stays applied to the store (no rollback), the failed
  one changes nothing.
\<close>

theorem self_healing_partial_failure:
  assumes "present (store_error env 0) \<or> present (store_error env 1)"
  shows "fst (triggerSelfHealing env args st) =
           Inl (Error ''Failed to complete self-healing routine'')
       \<and> machines (snd (triggerSelfHealing env args st)) =
           (if present (store_error env 0) then machines st
            else map (\<lambda>m. if current_status m = Str ''In Use'' \<and>
                               updated_at m < clock env 0 - 24 * 60 * 60 * 1000
                            then m\<lparr>current_status := Str ''Available''\<rparr> else m) (machines st))
       \<and> bookings (snd (triggerSelfHealing env args st)) =
           (if present (store_error env 1) then bookings st
            else map (\<lambda>b. if status b = Str ''Pending'' \<and>
                               booking.created_at b < clock env 1 - 7 * 24 * 60 * 60 * 1000
                            then b\<lparr>status := Str ''Cancelled''\<rparr> else b) (bookings st))"
  using healing_fails [OF assms]
  by (simp add: machines_after_healing bookings_after_healing reset_machines_def
      cancel_bookings_def fst_update_where stuck_def stale_def)

theorem self_healing_partial_failure_witness:
  "fst (triggerSelfHealing (example_env\<lparr>store_error := (\<lambda>n. if n = 1 then Some ''deadlock'' else None)\<rparr>)
          (Obj []) example_store) = Inl (Error ''Failed to complete self-healing routine'')
   \<and> map current_status (machines (snd (triggerSelfHealing
          (example_env\<lparr>store_error := (\<lambda>n. if n = 1 then Some ''deadlock'' else None)\<rparr>)
          (Obj []) example_store))) = [Str ''Available'', Str ''In Use'', Str ''Offline'']
   \<and> bookings (snd (triggerSelfHealing
          (example_env\<lparr>store_error := (\<lambda>n. if n = 1 then Some ''deadlock'' else None)\<rparr>)
          (Obj []) example_store)) = bookings example_store"
proof -
  let ?env = "example_env\<lparr>store_error := (\<lambda>n. if n = 1 then Some ''deadlock'' else None)\<rparr>"
  have h: "present (store_error ?env 0) \<or> present (store_error ?env 1)"
    by simp
  show ?thesis
    using self_healing_partial_failure [OF h, where args = "Obj []" and st = example_store]
    by (simp add: example_env_def example_store_def)
qed

subsection \<open>Revenue analytics\<close>

text \<open>
  Claim C8. When the store answers, \<^verbatim>\<open>getRevenueAnalytics\<close> reports the sum of the non-null
  revenues and that sum divided by \<open>max 1 n\<close>, where \<open>n\<close> is the number of eligible machines;
  with no eligible machine it succeeds and reports total \<^verbatim>\<open>0.00\<close> and average \<^verbatim>\<open>0.00\<close>.
\<close>

theorem getRevenueAnalytics_mean:
  assumes "store_error env 0 = None"
  shows "let eligible = filter (\<lambda>m. average_monthly_revenue m \<noteq> None) (machines st);
             total = foldl js_add (Finite 0)
                       (map (\<lambda>m. fl (the (average_monthly_revenue m))) eligible)
         in getRevenueAnalytics env args st =
              (Inr (''Total Monthly Revenue: $'' @ toFixed2 (number_toString env) total @
                    '', Average per Machine: $'' @
                    toFixed2 (number_toString env)
                      (js_div total (Finite (real (max 1 (length eligible)))))), st)
            \<and> (eligible = [] \<longrightarrow>
                 getRevenueAnalytics env args st =
                   (Inr ''Total Monthly Revenue: $0.00, Average per Machine: $0.00'', st))"
proof -
  let ?el = "filter (\<lambda>m. average_monthly_revenue m \<noteq> None) (machines st)"
  let ?total = "foldl js_add (Finite 0) (map (\<lambda>m. fl (the (average_monthly_revenue m))) ?el)"
  have el: "filter (\<lambda>m. present (average_monthly_revenue m)) (machines st) = ?el"
    by (rule filter_cong) (auto simp: present_iff)
  have "foldl (\<lambda>sum m. js_add sum (or_zero (map_option fl (average_monthly_revenue m))))
          (Finite 0) ?el
      = foldl (\<lambda>sum m. js_add sum (fl (the (average_monthly_revenue m)))) (Finite 0) ?el"
    by (rule foldl_cong) (auto simp: or_zero_fl simp del: or_zero.simps)
  also have "\<dots> = ?total"
    by (simp add: foldl_map)
  finally have total:
    "foldl (\<lambda>sum m. js_add sum (or_zero (map_option fl (average_monthly_revenue m))))
          (Finite 0) ?el = ?total" .
  have den: "(if length ?el = 0 then 1 else length ?el) = max 1 (length ?el)"
    by (cases ?el) simp_all
  have main: "getRevenueAnalytics env args st =
      (Inr (''Total Monthly Revenue: $'' @ toFixed2 (number_toString env) ?total @
            '', Average per Machine: $'' @
            toFixed2 (number_toString env)
              (js_div ?total (Finite (real (max 1 (length ?el)))))), st)"
    unfolding getRevenueAnalytics_def Let_def el total den
    using assms by simp
  have empty: "getRevenueAnalytics env args st =
      (Inr ''Total Monthly Revenue: $0.00, Average per Machine: $0.00'', st)" if "?el = []"
    unfolding main using that by (simp add: toFixed2_zero fl_zero del: toFixed2.simps)
  show ?thesis
    unfolding Let_def using main empty by blast
qed

theorem getRevenueAnalytics_mean_witness:
  "getRevenueAnalytics example_env (Obj []) cents_store =
     (Inr ''Total Monthly Revenue: $0.03, Average per Machine: $0.01'', cents_store)
   \<and> getRevenueAnalytics example_env (Obj []) (example_store\<lparr>machines := []\<rparr>) =
     (Inr ''Total Monthly Revenue: $0.00, Average per Machine: $0.00'',
      example_store\<lparr>machines := []\<rparr>)"
proof -
  have ok: "store_error example_env 0 = None"
    by (simp add: example_env_def)
  have c1: "fl (1 / 100) = Finite (5764607523034235 / 2 ^ 59)"
    using fl_below_one [of "1 / 100" 59 5764607523034235]
    by (simp add: round_half_even_def Let_def)
  have c2: "fl (2 / 100) = Finite (5764607523034235 / 2 ^ 58)"
    using fl_below_one [of "2 / 100" 58 5764607523034235]
    by (simp add: round_half_even_def Let_def)
  have c1': "fl (0 + 5764607523034235 / 2 ^ 59) = Finite (5764607523034235 / 2 ^ 59)"
    using fl_below_one [of "5764607523034235 / 2 ^ 59" 59 5764607523034235]
    by (simp add: round_half_even_def Let_def)
  have c3: "fl (5764607523034235 / 2 ^ 59 + 5764607523034235 / 2 ^ 58) =
      Finite (8646911284551352 / 2 ^ 58)"
    using fl_below_one [of "5764607523034235 / 2 ^ 59 + 5764607523034235 / 2 ^ 58" 58
        8646911284551352]
    by (simp add: round_half_even_def Let_def)
  have c4: "fl (8646911284551352 / 2 ^ 58 / 2) = Finite (8646911284551352 / 2 ^ 59)"
    using fl_below_one [of "8646911284551352 / 2 ^ 58 / 2" 59 8646911284551352]
    by (simp add: round_half_even_def Let_def)
  have el: "filter (\<lambda>m. average_monthly_revenue m \<noteq> None) (machines cents_store) =
      machines cents_store"
    and ms: "map (\<lambda>m. the (average_monthly_revenue m)) (machines cents_store) = [1 / 100, 2 / 100]"
    by (simp_all add: cents_store_def example_store_def del: not_None_eq)
  have vs: "map (\<lambda>m. fl (the (average_monthly_revenue m))) (machines cents_store) =
      [Finite (5764607523034235 / 2 ^ 59), Finite (5764607523034235 / 2 ^ 58)]"
    using ms c1 c2 by (simp add: cents_store_def example_store_def)
  have total: "foldl js_add (Finite 0)
        [Finite (5764607523034235 / 2 ^ 59), Finite (5764607523034235 / 2 ^ 58)] =
      Finite (8646911284551352 / 2 ^ 58)"
    by (simp only: foldl.simps js_add.simps c1' c3)
  have len: "real (max 1 (length (machines cents_store))) = 2"
    by (simp add: cents_store_def)
  have mean: "js_div (Finite (8646911284551352 / 2 ^ 58)) (Finite 2) =
      Finite (8646911284551352 / 2 ^ 59)"
    using c4 by simp
  have t3: "toFixed2 f (Finite (8646911284551352 / 2 ^ 58)) = ''0.03''" for f
    by (simp add: Let_def dec_small digit_def)
  have t1: "toFixed2 f (Finite (8646911284551352 / 2 ^ 59)) = ''0.01''" for f
    by (simp add: Let_def dec_small digit_def)
  have a: "getRevenueAnalytics example_env (Obj []) cents_store =
     (Inr ''Total Monthly Revenue: $0.03, Average per Machine: $0.01'', cents_store)"
    using getRevenueAnalytics_mean [OF ok, where args = "Obj []" and st = cents_store]
    unfolding Let_def el vs total len mean t3 t1 by simp
  have b: "getRevenueAnalytics example_env (Obj []) (example_store\<lparr>machines := []\<rparr>) =
     (Inr ''Total Monthly Revenue: $0.00, Average per Machine: $0.00'',
      example_store\<lparr>machines := []\<rparr>)"
  proof -
    have e: "filter (\<lambda>m. average_monthly_revenue m \<noteq> None)
        (machines (example_store\<lparr>machines := []\<rparr>)) = []"
      by simp
    from getRevenueAnalytics_mean [OF ok, where args = "Obj []"
        and st = "example_store\<lparr>machines := []\<rparr>"]
    show ?thesis unfolding Let_def e by blast
  qed
  show ?thesis using a b by simp
qed

subsection \<open>Adding a machine\<close>

text \<open>
  Claim C10. The \<open>current_status\<close> of the row \<^verbatim>\<open>addMachine\<close> sends to the store is
  \<^verbatim>\<open>Available\<close> when the argument is absent or the empty string, it is never the empty
  string, and a non-empty string argument is sent verbatim; when the store accepts the
  insert, that row is the one appended to the machines table.
\<close>

theorem addMachine_status_default:
  "(property args ''current_status'' = Undefined \<or> property args ''current_status'' = Str []
      \<longrightarrow> current_status (addMachine_row env args) = Str ''Available'')
   \<and> current_status (addMachine_row env args) \<noteq> Str []
   \<and> (\<forall>s. s \<noteq> [] \<longrightarrow> property args ''current_status'' = Str s
      \<longrightarrow> current_status (addMachine_row env args) = Str s)
   \<and> (destructurable args \<longrightarrow> store_error env 0 = None
      \<longrightarrow> machines (snd (addMachine env args st)) = machines st @ [addMachine_row env args])"
  by (auto simp: addMachine_row_def addMachine_def js_or_def)

theorem addMachine_status_default_witness:
  "current_status (addMachine_row example_env (Obj [])) = Str ''Available''
   \<and> current_status (addMachine_row example_env (Obj [(''current_status'', Str [])])) = Str ''Available''
   \<and> current_status (addMachine_row example_env (Obj [(''current_status'', Str ''In Use'')])) = Str ''In Use''
   \<and> machines (snd (addMachine example_env (Obj []) example_store)) =
       machines example_store @ [addMachine_row example_env (Obj [])]"
  using addMachine_status_default [of "Obj []" example_env example_store]
    addMachine_status_default [of "Obj [(''current_status'', Str [])]" example_env example_store]
    addMachine_status_default [of "Obj [(''current_status'', Str ''In Use'')]" example_env example_store]
  by (simp add: example_env_def)

subsection \<open>Listing offline machines and pending bookings\<close>

text \<open>The decimal rendering of the count determines the count.\<close>

lemma digit_inj: "a < 10 \<Longrightarrow> b < 10 \<Longrightarrow> digit a = digit b \<Longrightarrow> a = b"
  unfolding digit_def by (auto split: if_splits) presburger

lemma dec_length: "length (dec n) = (if n < 10 then 1 else Suc (length (dec (n div 10))))"
  by (subst dec.simps) simp

lemma dec_nonempty: "1 \<le> length (dec n)"
  by (subst dec.simps) simp

lemma dec_inj: "dec m = dec n \<Longrightarrow> m = n"
proof (induction m arbitrary: n rule: dec.induct)
  case (1 m)
  show ?case
  proof (cases "m < 10")
    case True
    then have lm: "length (dec m) = 1" by (simp add: dec_length)
    have "n < 10"
    proof (rule ccontr)
      assume "\<not> n < 10"
      then have "length (dec n) \<ge> 2"
        using dec_nonempty [of "n div 10"] by (subst dec_length) simp
      with lm "1.prems" show False by simp
    qed
    with True "1.prems" show ?thesis
      by (simp add: dec_small) (rule digit_inj)
  next
    case False
    have nb: "\<not> n < 10"
    proof
      assume "n < 10"
      then have "length (dec n) = 1" by (simp add: dec_length)
      moreover from False have "length (dec m) \<ge> 2"
        using dec_nonempty [of "m div 10"] by (subst dec_length) simp
      ultimately show False using "1.prems" by simp
    qed
    from False have m: "dec m = dec (m div 10) @ [digit (m mod 10)]" by (subst dec.simps) simp
    from nb have n: "dec n = dec (n div 10) @ [digit (n mod 10)]" by (subst dec.simps) simp
    from "1.prems" m n have a: "dec (m div 10) = dec (n div 10)"
      and b: "digit (m mod 10) = digit (n mod 10)" by simp_all
    from "1.IH" [OF False a] have "m div 10 = n div 10" .
    moreover from b have "m mod 10 = n mod 10" by (intro digit_inj) simp_all
    ultimately show ?thesis by (metis div_mult_mod_eq)
  qed
qed

lemma join_Cons_Inr:
  assumes "join sep (v # vs) = Inr l"
  shows "\<exists>s. (if v = Undefined \<or> v = Null then Inr [] else ToString v) = Inr s
           \<and> printed v = s
           \<and> (if vs = [] then l = s else (\<exists>t. join sep vs = Inr t \<and> l = s @ sep @ t))"
proof (cases "if v = Undefined \<or> v = Null then Inr [] else ToString v")
  case (Inl e)
  with assms show ?thesis by (simp del: ToString.simps)
next
  case (Inr s)
  then have p: "printed v = s" unfolding printed_def by simp
  show ?thesis
  proof (cases "vs = []")
    case True
    with assms Inr p show ?thesis by (simp del: ToString.simps)
  next
    case False
    with assms Inr p show ?thesis
      by (cases "join sep vs") (simp_all del: ToString.simps)
  qed
qed

lemma join_printed: "join sep vs = Inr l \<Longrightarrow> l = join_strings sep (map printed vs)"
proof (induction vs arbitrary: l)
  case Nil
  then show ?case by simp
next
  case (Cons v vs)
  from join_Cons_Inr [OF Cons.prems] obtain s where
    p: "printed v = s" and
    r: "if vs = [] then l = s else (\<exists>t. join sep vs = Inr t \<and> l = s @ sep @ t)"
    by blast
  show ?case
  proof (cases vs)
    case Nil
    with p r show ?thesis by simp
  next
    case (Cons w ws)
    with r obtain t where t: "join sep vs = Inr t" and l: "l = s @ sep @ t" by auto
    from Cons.IH [OF t] have "t = join_strings sep (map printed vs)" .
    with l p Cons show ?thesis by simp
  qed
qed

lemma join_total:
  "list_all printable vs \<Longrightarrow> join sep vs = Inr (join_strings sep (map printed vs))"
proof (induction vs)
  case Nil
  then show ?case by simp
next
  case (Cons v vs)
  from Cons.prems have pv: "printable v" and pvs: "list_all printable vs" by simp_all
  from pv obtain t where t: "ToString v = Inr t"
    unfolding printable_def by (cases "ToString v") simp_all
  have e: "(if v = Undefined \<or> v = Null then Inr [] else ToString v) = Inr (printed v)"
    unfolding printed_def using t by simp
  show ?case
  proof (cases vs)
    case Nil
    then show ?thesis by (simp add: e del: ToString.simps)
  next
    case (Cons w ws)
    with Cons.IH [OF pvs] show ?thesis
      by (simp add: e del: ToString.simps)
  qed
qed

lemma join_Inr_printable: "join sep vs = Inr l \<Longrightarrow> list_all printable vs"
proof (induction vs arbitrary: l)
  case Nil
  then show ?case by simp
next
  case (Cons v vs)
  from join_Cons_Inr [OF Cons.prems] obtain s where
    e: "(if v = Undefined \<or> v = Null then Inr [] else ToString v) = Inr s" and
    r: "if vs = [] then l = s else (\<exists>t. join sep vs = Inr t \<and> l = s @ sep @ t)"
    by blast
  have pv: "printable v"
  proof (cases "v = Undefined \<or> v = Null")
    case True
    then show ?thesis by (auto simp: printable_def)
  next
    case False
    with e show ?thesis by (simp add: printable_def del: ToString.simps)
  qed
  have "list_all printable vs"
  proof (cases "vs = []")
    case True
    then show ?thesis by simp
  next
    case False
    with r obtain t where "join sep vs = Inr t" by auto
    then show ?thesis by (rule Cons.IH)
  qed
  with pv show ?case by simp
qed

lemma join_Inr_iff:
  "join sep vs = Inr l \<longleftrightarrow> list_all printable vs \<and> l = join_strings sep (map printed vs)"
  using join_total [of vs sep] join_printed [of sep vs l] join_Inr_printable [of sep vs l]
  by auto

lemma offline_summary:
  "getOfflineMachines env args st = (Inr s, st') \<longleftrightarrow>
     store_error env 0 = None \<and> st' = st \<and>
     list_all printable
       (map machine_id (filter (\<lambda>m. current_status m = Str ''Offline'') (machines st))) \<and>
     s = ''Found '' @
         dec (length (filter (\<lambda>m. current_status m = Str ''Offline'') (machines st))) @
         '' offline machines: '' @
         join_strings '', '' (map printed (map machine_id
            (filter (\<lambda>m. current_status m = Str ''Offline'') (machines st))))"
proof -
  let ?ids = "map machine_id (filter (\<lambda>m. current_status m = Str ''Offline'') (machines st))"
  show ?thesis
  proof (cases "store_error env 0")
    case (Some m)
    then show ?thesis by (simp add: getOfflineMachines_def)
  next
    case None
    show ?thesis
    proof (cases "join '', '' ?ids")
      case (Inl e)
      then have "\<not> list_all printable ?ids"
        using join_total [of ?ids "'', ''"] by auto
      with None Inl show ?thesis
        by (simp add: getOfflineMachines_def Let_def)
    next
      case (Inr l)
      with None join_Inr_iff [of "'', ''" ?ids l] show ?thesis
        by (auto simp add: getOfflineMachines_def Let_def)
    qed
  qed
qed

lemma pending_summary:
  "getPendingBookings env args st = (Inr s, st') \<longleftrightarrow>
     store_error env 0 = None \<and> st' = st \<and>
     list_all printable
       (map booking_id (filter (\<lambda>b. status b = Str ''Pending'') (bookings st))) \<and>
     s = ''Found '' @
         dec (length (filter (\<lambda>b. status b = Str ''Pending'') (bookings st))) @
         '' pending bookings: '' @
         join_strings '', '' (map printed (map booking_id
            (filter (\<lambda>b. status b = Str ''Pending'') (bookings st))))"
proof -
  let ?ids = "map booking_id (filter (\<lambda>b. status b = Str ''Pending'') (bookings st))"
  show ?thesis
  proof (cases "store_error env 0")
    case (Some m)
    then show ?thesis by (simp add: getPendingBookings_def)
  next
    case None
    show ?thesis
    proof (cases "join '', '' ?ids")
      case (Inl e)
      then have "\<not> list_all printable ?ids"
        using join_total [of ?ids "'', ''"] by auto
      with None Inl show ?thesis
        by (simp add: getPendingBookings_def Let_def)
    next
      case (Inr l)
      with None join_Inr_iff [of "'', ''" ?ids l] show ?thesis
        by (auto simp add: getPendingBookings_def Let_def)
    qed
  qed
qed

text \<open>
  Claim C7. Whatever rows the store returns, \<^verbatim>\<open>getOfflineMachines\<close> and
  \<^verbatim>\<open>getPendingBookings\<close> return a summary exactly when the store answers and every id of
  the matching rows can be printed, and then the summary is the count followed by the ids
  joined with a comma and a space, where the count is the number of ids so listed: both
  come from the same list of rows. The store is left as it was.
\<close>

theorem reported_count_matches_ids:
  "(let ids = map machine_id
                (filter (\<lambda>m. current_status m = Str ''Offline'') (machines st))
    in getOfflineMachines env args st = (Inr s, st') \<longleftrightarrow>
         store_error env 0 = None \<and> st' = st \<and> list_all printable ids \<and>
         s = ''Found '' @ dec (length (map printed ids)) @ '' offline machines: '' @
             join_strings '', '' (map printed ids))
   \<and> (let ids = map booking_id
                (filter (\<lambda>b. status b = Str ''Pending'') (bookings st))
    in getPendingBookings env args st = (Inr s, st') \<longleftrightarrow>
         store_error env 0 = None \<and> st' = st \<and> list_all printable ids \<and>
         s = ''Found '' @ dec (length (map printed ids)) @ '' pending bookings: '' @
             join_strings '', '' (map printed ids))"
  unfolding Let_def using offline_summary [of env args st s st'] pending_summary [of env args st s st']
  by simp

theorem reported_count_matches_ids_witness:
  "store_error example_env 0 = None
   \<and> list_all printable (map machine_id
        (filter (\<lambda>m. current_status m = Str ''Offline'') (machines example_store)))
   \<and> list_all printable (map booking_id
        (filter (\<lambda>b. status b = Str ''Pending'') (bookings example_store)))
   \<and> getOfflineMachines example_env (Obj []) example_store =
     (Inr ''Found 1 offline machines: D1'', example_store)
   \<and> getPendingBookings example_env (Obj []) example_store =
     (Inr ''Found 2 pending bookings: B1, B2'', example_store)"
proof -
  have ok: "store_error example_env 0 = None"
    by (simp add: example_env_def)
  have c: "map machine_id
        (filter (\<lambda>m. current_status m = Str ''Offline'') (machines example_store)) = [Str ''D1'']"
    by (simp add: example_store_def)
  have d: "map booking_id
        (filter (\<lambda>b. status b = Str ''Pending'') (bookings example_store)) =
      [Str ''B1'', Str ''B2'']"
    by (simp add: example_store_def)
  have p: "list_all printable [Str ''D1'']" "list_all printable [Str ''B1'', Str ''B2'']"
    by (simp_all add: printable_def)
  have n: "dec (Suc 0) = ''1''" "dec 2 = ''2''" "dec (Suc (Suc 0)) = ''2''"
    by (simp_all add: dec_small digit_def)
  note t = reported_count_matches_ids [of example_store example_env "Obj []" _ example_store,
      unfolded Let_def c d]
  have a: "getOfflineMachines example_env (Obj []) example_store =
     (Inr ''Found 1 offline machines: D1'', example_store)"
    using t [of "''Found 1 offline machines: D1''"] ok p
    by (simp add: printed_def n)
  have b: "getPendingBookings example_env (Obj []) example_store =
     (Inr ''Found 2 pending bookings: B1, B2'', example_store)"
    using t [of "''Found 2 pending bookings: B1, B2''"] ok p
    by (simp add: printed_def n)
  from ok p a b show ?thesis unfolding c d by simp
qed

subsection \<open>The dispatch loop\<close>

lemma POST_answered:
  assumes "api_key env = Some k" and "k \<noteq> []"
    and "complete env (first_request req) = Response True body (Some data)"
  shows "POST env req st =
     (case signalled (first_choice data) of
        None \<Rightarrow> fall_through (first_choice data) st [first_request req]
      | Some fc \<Rightarrow>
          (case functionMap_get (function_call.name fc) of
             Missing \<Rightarrow> fall_through (first_choice data) st [first_request req]
           | mem \<Rightarrow> dispatch env req fc mem st))"
  using assms by (simp add: POST_def Let_def)

text \<open>
  Claim C4. When the key is configured and the completion service answers with a response
  that carries no function-call signal, the route replies with the message content of the
  first choice exactly, or with the generic fallback string when that content is empty or
  absent; no function is invoked and the store is untouched.
\<close>

theorem direct_reply:
  assumes "api_key env = Some k" and "k \<noteq> []"
    and "complete env (first_request req) = Response True body (Some data)"
    and "signalled (first_choice data) = None"
  shows "POST env req st =
     \<lparr>outcome = Reply (case content_of (first_choice data) of
                         None \<Rightarrow> ''Sorry, I could not generate a response.''
                       | Some c \<Rightarrow> if c = [] then ''Sorry, I could not generate a response.''
                                  else c),
      store_after = st, invoked = [], requests = [first_request req]\<rparr>"
  unfolding POST_answered [OF assms(1-3)] using assms(4)
  by (simp add: fall_through_def or_else_def)

theorem direct_reply_witness:
  "outcome (POST (model_answers (Some ''Two machines are offline.'')) example_request example_store)
     = Reply ''Two machines are offline.''
   \<and> outcome (POST (model_answers (Some [])) example_request example_store)
     = Reply ''Sorry, I could not generate a response.''
   \<and> outcome (POST (model_answers None) example_request example_store)
     = Reply ''Sorry, I could not generate a response.''"
proof -
  have k: "api_key (model_answers c) = Some ''sk-test''" "''sk-test'' \<noteq> []" for c
    by (simp_all add: model_answers_def example_env_def)
  have r: "complete (model_answers c) (first_request example_request) =
      Response True [] (Some \<lparr>choices = Some
          [\<lparr>finish_reason = Some ''stop'',
            message = Some \<lparr>message.role = ''assistant'', message.content = c, name = None,
                            function_call = None\<rparr>\<rparr>]\<rparr>)" for c
    by (simp add: model_answers_def text_response_def)
  have s: "signalled (first_choice \<lparr>choices = Some
          [\<lparr>finish_reason = Some ''stop'',
            message = Some \<lparr>message.role = ''assistant'', message.content = c, name = None,
                            function_call = None\<rparr>\<rparr>]\<rparr>) = None" for c
    by (simp add: signalled_def first_choice_def)
  note t = direct_reply [OF k r s, of _ example_store]
  show ?thesis
    using t [of "Some ''Two machines are offline.''"] t [of "Some []"] t [of None]
    by (simp add: content_of_def first_choice_def)
qed

lemma functionMap_registered:
  "functionMap nm = Some h \<Longrightarrow>
     h = addLaundromat \<or> h = addMachine \<or> h = addUser \<or> h = addDriver \<or>
     h = getOfflineMachines \<or> h = getPendingBookings \<or> h = getSystemHealth \<or>
     h = triggerSelfHealing \<or> h = getMachineAnalytics \<or> h = getRevenueAnalytics"
  unfolding functionMap_def by (simp split: if_splits)

lemma bump_ignores_parser: "bump (env\<lparr>JSON_parse := p\<rparr>) acc k = bump env acc k"
  by (simp add: bump_def cong: option.case_cong)

lemma reduce_statuses_ignores_parser:
  "reduce_statuses (env\<lparr>JSON_parse := p\<rparr>) acc vs = reduce_statuses env acc vs"
  by (induction vs arbitrary: acc)
    (simp_all add: bump_ignores_parser del: ToString.simps cong: sum.case_cong)

lemma handlers_ignore_parser:
  assumes "functionMap nm = Some h"
  shows "h (env\<lparr>JSON_parse := p\<rparr>) a st = h env a st"
proof -
  have 1: "addLaundromat (env\<lparr>JSON_parse := p\<rparr>) a st = addLaundromat env a st"
    by (simp add: addLaundromat_def)
  have 2: "addMachine (env\<lparr>JSON_parse := p\<rparr>) a st = addMachine env a st"
    by (simp add: addMachine_def addMachine_row_def cong: option.case_cong)
  have 3: "addUser (env\<lparr>JSON_parse := p\<rparr>) a st = addUser env a st"
    by (simp add: addUser_def)
  have 4: "addDriver (env\<lparr>JSON_parse := p\<rparr>) a st = addDriver env a st"
    by (simp add: addDriver_def)
  have 5: "getOfflineMachines (env\<lparr>JSON_parse := p\<rparr>) a st = getOfflineMachines env a st"
    by (simp add: getOfflineMachines_def)
  have 6: "getPendingBookings (env\<lparr>JSON_parse := p\<rparr>) a st = getPendingBookings env a st"
    by (simp add: getPendingBookings_def)
  have 7: "getSystemHealth (env\<lparr>JSON_parse := p\<rparr>) a st = getSystemHealth env a st"
    by (simp add: getSystemHealth_def)
  have 8: "triggerSelfHealing (env\<lparr>JSON_parse := p\<rparr>) a st = triggerSelfHealing env a st"
    by (simp add: triggerSelfHealing_def reset_machines_def cancel_bookings_def cong: if_cong)
  have 9: "getMachineAnalytics (env\<lparr>JSON_parse := p\<rparr>) a st = getMachineAnalytics env a st"
    by (simp add: getMachineAnalytics_def reduce_statuses_ignores_parser cong: option.case_cong)
  have 10: "getRevenueAnalytics (env\<lparr>JSON_parse := p\<rparr>) a st = getRevenueAnalytics env a st"
    by (simp add: getRevenueAnalytics_def cong: option.case_cong)
  from functionMap_registered [OF assms] show ?thesis
    by (elim disjE) (simp_all only: 1 2 3 4 5 6 7 8 9 10)
qed

lemma dispatch_ignores_parse_failure:
  assumes "functionMap (function_call.name fc) = Some h"
    and "JSON_parse env (arguments fc) = None"
  shows "dispatch (env\<lparr>JSON_parse := (JSON_parse env)(arguments fc := Some (Obj []))\<rparr>) req fc (Own h) st
       = dispatch env req fc (Own h) st"
  using assms(2) handlers_ignore_parser [OF assms(1)]
  by (simp add: dispatch_def Let_def followup_request_def first_request_def
      cong: prod.case_cong sum.case_cong)

lemma dispatch_unparsed:
  assumes "JSON_parse env (arguments fc) = None"
  shows "dispatch env req fc (Own h) st =
     (case h env (Obj []) st of
        (Inl e, st') \<Rightarrow>
          \<lparr>outcome = Unhandled e, store_after = st',
           invoked = [(function_call.name fc, Obj [])], requests = [first_request req]\<rparr>
      | (Inr t, st') \<Rightarrow>
          (case complete env (followup_request req fc (Some (JSON_stringify env t))) of
             Rejected e \<Rightarrow>
               \<lparr>outcome = Unhandled e, store_after = st',
                invoked = [(function_call.name fc, Obj [])],
                requests = [first_request req,
                            followup_request req fc (Some (JSON_stringify env t))]\<rparr>
           | Response ok body None \<Rightarrow>
               \<lparr>outcome = Unhandled (SyntaxError ''Unexpected token in JSON''),
                store_after = st', invoked = [(function_call.name fc, Obj [])],
                requests = [first_request req,
                            followup_request req fc (Some (JSON_stringify env t))]\<rparr>
           | Response ok body (Some followupData) \<Rightarrow>
               \<lparr>outcome = Reply (or_else (content_of (first_choice followupData))
                                   ''Action completed.''),
                store_after = st', invoked = [(function_call.name fc, Obj [])],
                requests = [first_request req,
                            followup_request req fc (Some (JSON_stringify env t))]\<rparr>))"
  using assms
  by (simp add: dispatch_def Let_def split: prod.splits sum.splits)

lemma functionMap_get_Own: "functionMap nm = Some h \<Longrightarrow> functionMap_get nm = Own h"
  by (simp add: functionMap_get_def)

text \<open>
  Claim C6. When the completion service signals a call of a registered function and the
  argument payload does not parse, the route calls that handler, once, with the empty
  object; what it sends on to the completion service is the handler's result. The run is
  the very run that a payload parsing to the empty object gives: no parse error reaches the
  model or the caller.
\<close>

theorem malformed_arguments_are_empty:
  assumes "api_key env = Some k" and "k \<noteq> []"
    and "complete env (first_request req) = Response True body (Some data)"
    and "signalled (first_choice data) = Some fc"
    and "functionMap (function_call.name fc) = Some h"
    and "JSON_parse env (arguments fc) = None"
  shows "invoked (POST env req st) = [(function_call.name fc, Obj [])]
       \<and> store_after (POST env req st) = snd (h env (Obj []) st)
       \<and> (case fst (h env (Obj []) st) of
             Inl e \<Rightarrow>
               outcome (POST env req st) = Unhandled e
               \<and> requests (POST env req st) = [first_request req]
           | Inr t \<Rightarrow>
               requests (POST env req st) =
                 [first_request req, followup_request req fc (Some (JSON_stringify env t))])
       \<and> POST (env\<lparr>JSON_parse := (JSON_parse env)(arguments fc := Some (Obj []))\<rparr>) req st =
           POST env req st"
proof -
  let ?env' = "env\<lparr>JSON_parse := (JSON_parse env)(arguments fc := Some (Obj []))\<rparr>"
  have P: "POST env req st = dispatch env req fc (Own h) st"
    unfolding POST_answered [OF assms(1-3)]
    by (simp add: assms(4) functionMap_get_Own [OF assms(5)])
  have k': "api_key ?env' = Some k"
    and r': "complete ?env' (first_request req) = Response True body (Some data)"
    using assms(1,3) by simp_all
  have P': "POST ?env' req st = dispatch ?env' req fc (Own h) st"
    unfolding POST_answered [OF k' assms(2) r']
    by (simp add: assms(4) functionMap_get_Own [OF assms(5)])
  have same: "POST ?env' req st = POST env req st"
    unfolding P P' by (rule dispatch_ignores_parse_failure [OF assms(5,6)])
  have D: "invoked (dispatch env req fc (Own h) st) = [(function_call.name fc, Obj [])]
       \<and> store_after (dispatch env req fc (Own h) st) = snd (h env (Obj []) st)
       \<and> (case fst (h env (Obj []) st) of
             Inl e \<Rightarrow>
               outcome (dispatch env req fc (Own h) st) = Unhandled e
               \<and> requests (dispatch env req fc (Own h) st) = [first_request req]
           | Inr t \<Rightarrow>
               requests (dispatch env req fc (Own h) st) =
                 [first_request req, followup_request req fc (Some (JSON_stringify env t))])"
    unfolding dispatch_unparsed [OF assms(6)]
    by (cases "h env (Obj []) st")
       (auto split: sum.splits fetch_result.splits option.splits)
  from D same show ?thesis unfolding P by simp
qed

theorem malformed_arguments_are_empty_witness:
  "JSON_parse (model_calls ''getOfflineMachines'' ''{oops'') ''{oops'' = None
   \<and> POST (model_calls ''getOfflineMachines'' ''{oops'') example_request example_store =
     \<lparr>outcome = Reply ''Done.'', store_after = example_store,
      invoked = [(''getOfflineMachines'', Obj [])],
      requests =
        [first_request example_request,
         followup_request example_request
           \<lparr>function_call.name = ''getOfflineMachines'', arguments = ''{oops''\<rparr>
           (Some (dq @ ''Found 1 offline machines: D1'' @ dq))]\<rparr>"
proof -
  let ?env = "model_calls ''getOfflineMachines'' ''{oops''"
  let ?fc = "\<lparr>function_call.name = ''getOfflineMachines'', arguments = ''{oops''\<rparr>"
  let ?data = "\<lparr>choices = Some
          [\<lparr>finish_reason = Some ''function_call'',
            message = Some \<lparr>message.role = ''assistant'', message.content = None, name = None,
                            function_call = Some ?fc\<rparr>\<rparr>]\<rparr>"
  have k: "api_key ?env = Some ''sk-test''" "''sk-test'' \<noteq> []"
    by (simp_all add: model_calls_def example_env_def)
  have r: "complete ?env (first_request example_request) = Response True [] (Some ?data)"
    by (simp add: model_calls_def call_response_def first_request_def)
  have s: "signalled (first_choice ?data) = Some ?fc"
    by (simp add: signalled_def first_choice_def)
  have f: "functionMap (function_call.name ?fc) = Some getOfflineMachines"
    by (simp add: functionMap_def)
  have b: "JSON_parse ?env (arguments ?fc) = None"
    by (simp add: model_calls_def example_env_def)
  have h: "getOfflineMachines ?env (Obj []) example_store =
      (Inr ''Found 1 offline machines: D1'', example_store)"
    by (simp add: getOfflineMachines_def model_calls_def example_env_def example_store_def
        dec.simps digit_def)
  have j: "JSON_stringify ?env t = dq @ t @ dq" for t
    by (simp add: model_calls_def example_env_def)
  note t = malformed_arguments_are_empty [OF k r s f b, of example_store]
  have i: "invoked (POST ?env example_request example_store) = [(''getOfflineMachines'', Obj [])]"
    and st: "store_after (POST ?env example_request example_store) = example_store"
    and rq: "requests (POST ?env example_request example_store) =
        [first_request example_request,
         followup_request example_request ?fc (Some (dq @ ''Found 1 offline machines: D1'' @ dq))]"
    using t by (simp_all add: h j)
  have P: "POST ?env example_request example_store =
      dispatch ?env example_request ?fc (Own getOfflineMachines) example_store"
    unfolding POST_answered [OF k r]
    by (simp add: s functionMap_get_def functionMap_def)
  have c: "complete ?env (followup_request example_request ?fc x) = text_response (Some ''Done.'')"
    for x
    by (simp add: model_calls_def followup_request_def)
  have o: "outcome (POST ?env example_request example_store) = Reply ''Done.''"
    unfolding P dispatch_unparsed [OF b]
    by (simp add: h c text_response_def or_else_def content_of_def first_choice_def)
  have "POST ?env example_request example_store =
     \<lparr>outcome = outcome (POST ?env example_request example_store),
      store_after = store_after (POST ?env example_request example_store),
      invoked = invoked (POST ?env example_request example_store),
      requests = requests (POST ?env example_request example_store)\<rparr>"
    by simp
  with i st rq o b show ?thesis by simp
qed

lemma or_else_nonempty: "fallback \<noteq> [] \<Longrightarrow> or_else c fallback \<noteq> []"
  by (simp add: or_else_def split: option.splits)

lemma functionMap_get_Missing:
  "functionMap_get nm = Missing \<longleftrightarrow>
     nm \<notin> set function_names \<and> nm \<notin> set Object_prototype_functions \<and> nm \<noteq> ''__proto__''"
  by (simp add: functionMap_get_def functionMap_def function_names_def
      Object_prototype_functions_def)

lemma missing_name_falls_through:
  assumes "api_key env = Some k" and "k \<noteq> []"
    and "complete env (first_request req) = Response True body (Some data)"
    and "signalled (first_choice data) = Some fc"
    and "functionMap_get (function_call.name fc) = Missing"
  shows "POST env req st =
     \<lparr>outcome = Reply (or_else (content_of (first_choice data))
                         ''Sorry, I could not generate a response.''),
      store_after = st, invoked = [], requests = [first_request req]\<rparr>"
    and "or_else (content_of (first_choice data)) ''Sorry, I could not generate a response.'' \<noteq> []"
  unfolding POST_answered [OF assms(1-3)]
  by (simp_all add: assms(4,5) fall_through_def or_else_nonempty)

text \<open>
  Claim C5. A function-call signal whose name is not in the registry should invoke nothing
  and fall through to a non-empty reply. The route does so for a name that \<^verbatim>\<open>functionMap\<close>
  neither owns nor inherits (\<open>missing_name_falls_through\<close>). For a name it inherits from
  \<^verbatim>\<open>Object.prototype\<close> the guard \<^verbatim>\<open>if (functionMap[name])\<close> passes: with \<^verbatim>\<open>__proto__\<close> the
  call throws a TypeError and the route fails; with \<^verbatim>\<open>toString\<close> the inherited function is
  called as if it were a handler, a second completion request is sent and its answer is
  relayed instead of the content of the first response.
\<close>

theorem inherited_name_is_dispatched:
  "functionMap ''__proto__'' = None
   \<and> POST (model_calls ''__proto__'' ''{}'') example_request example_store =
     \<lparr>outcome = Unhandled (TypeError ''functionMap[name] is not a function''),
      store_after = example_store,
      invoked = [(''__proto__'', Obj [])],
      requests = [first_request example_request]\<rparr>
   \<and> functionMap ''toString'' = None
   \<and> POST (model_calls ''toString'' ''{}'') example_request example_store =
     \<lparr>outcome = Reply ''Done.'',
      store_after = example_store,
      invoked = [(''toString'', Obj [])],
      requests =
        [first_request example_request,
         followup_request example_request
           \<lparr>function_call.name = ''toString'', arguments = ''{}''\<rparr>
           (Some (dq @ ''[object Object]'' @ dq))]\<rparr>"
proof -
  have k: "api_key (model_calls nm p) = Some ''sk-test''" "''sk-test'' \<noteq> []" for nm p
    by (simp_all add: model_calls_def example_env_def)
  have r: "complete (model_calls nm p) (first_request example_request) =
      Response True [] (Some \<lparr>choices = Some
          [\<lparr>finish_reason = Some ''function_call'',
            message = Some \<lparr>message.role = ''assistant'', message.content = None, name = None,
                            function_call = Some \<lparr>function_call.name = nm,
                                                  arguments = p\<rparr>\<rparr>\<rparr>]\<rparr>)" for nm p
    by (simp add: model_calls_def call_response_def first_request_def)
  have c: "complete (model_calls nm p) (followup_request example_request fc x) =
      text_response (Some ''Done.'')" for nm p fc x
    by (simp add: model_calls_def followup_request_def)
  have e: "JSON_parse (model_calls nm p) ''{}'' = Some (Obj [])"
    "JSON_stringify (model_calls nm p) t = dq @ t @ dq" for nm p t
    by (simp_all add: model_calls_def example_env_def)
  have a: "functionMap ''__proto__'' = None" "functionMap ''toString'' = None"
    by (simp_all add: functionMap_def)
  have g: "functionMap_get ''__proto__'' = Inherited_object"
    "functionMap_get ''toString'' = Inherited_function ''toString''"
    by (simp_all add: functionMap_get_def a Object_prototype_functions_def)
  have 1: "POST (model_calls ''__proto__'' ''{}'') example_request example_store =
     \<lparr>outcome = Unhandled (TypeError ''functionMap[name] is not a function''),
      store_after = example_store,
      invoked = [(''__proto__'', Obj [])],
      requests = [first_request example_request]\<rparr>"
    unfolding POST_answered [OF k r]
    by (simp add: signalled_def first_choice_def g dispatch_def e)
  have 2: "POST (model_calls ''toString'' ''{}'') example_request example_store =
     \<lparr>outcome = Reply ''Done.'',
      store_after = example_store,
      invoked = [(''toString'', Obj [])],
      requests =
        [first_request example_request,
         followup_request example_request
           \<lparr>function_call.name = ''toString'', arguments = ''{}''\<rparr>
           (Some (dq @ ''[object Object]'' @ dq))]\<rparr>"
    unfolding POST_answered [OF k r]
    by (simp add: signalled_def first_choice_def g dispatch_def e c text_response_def
        or_else_def content_of_def)
  from a 1 2 show ?thesis by simp
qed

subsection \<open>Store errors\<close>

lemma machine_analytics_drops_store_error:
  "store_error env 0 = Some m \<Longrightarrow>
   getMachineAnalytics env args st =
     (Inl (TypeError ''Cannot read properties of null (reading reduce)''), st)"
  by (simp add: getMachineAnalytics_def)

text \<open>
  Claim C3, as stated, fails: when the store refuses the updates of \<^verbatim>\<open>triggerSelfHealing\<close>
  with the message \<^verbatim>\<open>connection refused\<close>, the handler fails with its fixed message, and the
  store's message is no part of it.
\<close>

theorem generic_failure_hides_store_message:
  "store_error store_down 0 = Some ''connection refused''
   \<and> fst (triggerSelfHealing store_down (Obj []) example_store) =
       Inl (Error ''Failed to complete self-healing routine'')
   \<and> \<not> sublist ''connection refused'' ''Failed to complete self-healing routine''"
proof -
  have a: "store_error store_down 0 = Some ''connection refused''"
    by (simp add: store_down_def)
  have b: "fst (triggerSelfHealing store_down (Obj []) example_store) =
       Inl (Error ''Failed to complete self-healing routine'')"
    by (rule healing_fails) (simp add: a)
  have c: "\<not> sublist ''connection refused'' ''Failed to complete self-healing routine''"
    by (simp add: sublist_Cons_right)
  from a b c show ?thesis by simp
qed

lemma below_four: "(\<exists>n<4. P n) \<longleftrightarrow> P 0 \<or> P 1 \<or> P 2 \<or> P (3::nat)"
  by (auto simp: numeral_eq_Suc less_Suc_eq)

lemma healing_succeeds:
  "\<not> present (store_error env 0) \<Longrightarrow> \<not> present (store_error env 1) \<Longrightarrow>
   \<exists>t. fst (triggerSelfHealing env args st) = Inr t"
  by (simp add: triggerSelfHealing_def Let_def split: prod.splits)

text \<open>
  Claim C3, amended. When the store operation of \<^verbatim>\<open>addLaundromat\<close>, \<^verbatim>\<open>addMachine\<close>,
  \<^verbatim>\<open>addUser\<close>, \<^verbatim>\<open>addDriver\<close> (called with an argument bag that can be destructured),
  \<^verbatim>\<open>getOfflineMachines\<close>, \<^verbatim>\<open>getPendingBookings\<close> or \<^verbatim>\<open>getRevenueAnalytics\<close> fails with
  message \<open>m\<close>, the handler fails with the handler's own prefix followed by \<open>m\<close>, and the store
  is unchanged. \<^verbatim>\<open>triggerSelfHealing\<close> fails exactly when one of its two updates fails, and
  then with its fixed message, which does not carry the store's message. \<^verbatim>\<open>getSystemHealth\<close>
  never fails: it returns the degraded-status summary exactly when one of its four reads
  fails, and the healthy one otherwise.
\<close>

theorem store_errors_surface:
  "(store_error env 0 = Some m \<longrightarrow>
      (destructurable args \<longrightarrow>
         addLaundromat env args st = (Inl (Error (''Failed to add laundromat: '' @ m)), st)
       \<and> addMachine env args st = (Inl (Error (''Failed to add machine: '' @ m)), st)
       \<and> addUser env args st = (Inl (Error (''Failed to add user: '' @ m)), st)
       \<and> addDriver env args st = (Inl (Error (''Failed to add driver: '' @ m)), st))
    \<and> getOfflineMachines env args st =
         (Inl (Error (''Failed to get offline machines: '' @ m)), st)
    \<and> getPendingBookings env args st =
         (Inl (Error (''Failed to get pending bookings: '' @ m)), st)
    \<and> getRevenueAnalytics env args st =
         (Inl (Error (''Failed to get revenue analytics: '' @ m)), st))
   \<and> (fst (triggerSelfHealing env args st) =
         Inl (Error ''Failed to complete self-healing routine'')
       \<longleftrightarrow> present (store_error env 0) \<or> present (store_error env 1))
   \<and> (\<forall>e. fst (triggerSelfHealing env args st) = Inl e \<longrightarrow>
          e = Error ''Failed to complete self-healing routine'')
   \<and> getSystemHealth env args st =
        (Inr (if \<exists>n<4. present (store_error env n)
              then ''System issues detected. Some services may be degraded.''
              else ''System is healthy. All services operational.''), st)"
proof -
  have h: "fst (triggerSelfHealing env args st) =
         Inl (Error ''Failed to complete self-healing routine'')
       \<longleftrightarrow> present (store_error env 0) \<or> present (store_error env 1)"
  proof
    assume l: "fst (triggerSelfHealing env args st) =
         Inl (Error ''Failed to complete self-healing routine'')"
    show "present (store_error env 0) \<or> present (store_error env 1)"
    proof (rule ccontr)
      assume "\<not> (present (store_error env 0) \<or> present (store_error env 1))"
      then have "\<not> present (store_error env 0)" and "\<not> present (store_error env 1)"
        by blast+
      from healing_succeeds [OF this, of args st] l show False by auto
    qed
  next
    assume "present (store_error env 0) \<or> present (store_error env 1)"
    then show "fst (triggerSelfHealing env args st) =
         Inl (Error ''Failed to complete self-healing routine'')"
      by (rule healing_fails)
  qed
  have h': "e = Error ''Failed to complete self-healing routine''"
    if l: "fst (triggerSelfHealing env args st) = Inl e" for e
  proof (cases "present (store_error env 0) \<or> present (store_error env 1)")
    case True
    from healing_fails [OF True, of args st] l show ?thesis by simp
  next
    case False
    then have "\<not> present (store_error env 0)" and "\<not> present (store_error env 1)"
      by blast+
    from healing_succeeds [OF this, of args st] l show ?thesis by auto
  qed
  have a: "addLaundromat env args st = (Inl (Error (''Failed to add laundromat: '' @ m)), st)"
    if "store_error env 0 = Some m" "destructurable args"
    using that by (simp add: addLaundromat_def Let_def)
  have b: "addMachine env args st = (Inl (Error (''Failed to add machine: '' @ m)), st)"
    if "store_error env 0 = Some m" "destructurable args"
    using that by (simp add: addMachine_def Let_def)
  have c: "addUser env args st = (Inl (Error (''Failed to add user: '' @ m)), st)"
    if "store_error env 0 = Some m" "destructurable args"
    using that by (simp add: addUser_def Let_def)
  have d: "addDriver env args st = (Inl (Error (''Failed to add driver: '' @ m)), st)"
    if "store_error env 0 = Some m" "destructurable args"
    using that by (simp add: addDriver_def Let_def)
  have e: "getOfflineMachines env args st =
            (Inl (Error (''Failed to get offline machines: '' @ m)), st)"
    if "store_error env 0 = Some m"
    using that by (simp add: getOfflineMachines_def)
  have f: "getPendingBookings env args st =
            (Inl (Error (''Failed to get pending bookings: '' @ m)), st)"
    if "store_error env 0 = Some m"
    using that by (simp add: getPendingBookings_def)
  have g: "getRevenueAnalytics env args st =
            (Inl (Error (''Failed to get revenue analytics: '' @ m)), st)"
    if "store_error env 0 = Some m"
    using that by (simp add: getRevenueAnalytics_def)
  have i: "getSystemHealth env args st =
        (Inr (if \<exists>n<4. present (store_error env n)
              then ''System issues detected. Some services may be degraded.''
              else ''System is healthy. All services operational.''), st)"
    unfolding below_four by (simp add: getSystemHealth_def)
  from a b c d e f g h h' i show ?thesis by blast
qed

theorem store_errors_surface_witness:
  "store_error store_down 0 = Some ''connection refused''
   \<and> destructurable (Obj [])
   \<and> addLaundromat store_down (Obj []) example_store =
       (Inl (Error ''Failed to add laundromat: connection refused''), example_store)
   \<and> getRevenueAnalytics store_down (Obj []) example_store =
       (Inl (Error ''Failed to get revenue analytics: connection refused''), example_store)
   \<and> present (store_error second_fails 1)
   \<and> fst (triggerSelfHealing second_fails (Obj []) example_store) =
       Inl (Error ''Failed to complete self-healing routine'')
   \<and> present (store_error fourth_fails 3)
   \<and> getSystemHealth fourth_fails (Obj []) example_store =
       (Inr ''System issues detected. Some services may be degraded.'', example_store)
   \<and> getSystemHealth example_env (Obj []) example_store =
       (Inr ''System is healthy. All services operational.'', example_store)"
proof -
  have a: "store_error store_down 0 = Some ''connection refused''"
    by (simp add: store_down_def)
  have b: "destructurable (Obj [])" by simp
  have c: "present (store_error second_fails 1)"
    by (simp add: second_fails_def)
  have d: "present (store_error fourth_fails 3)"
    by (simp add: fourth_fails_def)
  have d': "\<exists>n<4. present (store_error fourth_fails n)"
    using d by (intro exI [of _ 3]) simp
  have e: "\<not> (\<exists>n<4. present (store_error example_env n))"
    by (simp add: example_env_def)
  note t = store_errors_surface [where args = "Obj []" and st = example_store]
  from t [of store_down "''connection refused''"] a b
  have 1: "addLaundromat store_down (Obj []) example_store =
       (Inl (Error ''Failed to add laundromat: connection refused''), example_store)"
    and 2: "getRevenueAnalytics store_down (Obj []) example_store =
       (Inl (Error ''Failed to get revenue analytics: connection refused''), example_store)"
    by simp_all
  from t [of second_fails "[]"] c
  have 3: "fst (triggerSelfHealing second_fails (Obj []) example_store) =
       Inl (Error ''Failed to complete self-healing routine'')"
    by blast
  from t [of fourth_fails "[]"] d'
  have 4: "getSystemHealth fourth_fails (Obj []) example_store =
       (Inr ''System issues detected. Some services may be degraded.'', example_store)"
    by simp
  from t [of example_env "[]"] e
  have 5: "getSystemHealth example_env (Obj []) example_store =
       (Inr ''System is healthy. All services operational.'', example_store)"
    by simp
  from a b c d 1 2 3 4 5 show ?thesis by simp
qed

subsection \<open>The chat client\<close>

lemma non_2xx_gets_apology:
  assumes "\<not> blank (input w)"
    and "fetch (input w) (widget.history w @ [\<lparr>turn.role = ''user'', turn.content = input w\<rparr>]) =
           Response False body decoded"
  shows "sendMessage fetch w =
     (None,
      w\<lparr>widget.history := widget.history w @
           [\<lparr>turn.role = ''user'', turn.content = input w\<rparr>,
            \<lparr>turn.role = ''agent'',
             turn.content = ''Sorry, there was an error contacting the agent.''\<rparr>],
        input := [], loading := False\<rparr>)"
  using assms by (simp add: sendMessage_def agentChat_def Let_def)

lemma rejected_fetch_is_uncaught:
  assumes "\<not> blank (input w)"
    and "fetch (input w) (widget.history w @ [\<lparr>turn.role = ''user'', turn.content = input w\<rparr>]) =
           Rejected e"
  shows "sendMessage fetch w =
     (Some e,
      w\<lparr>widget.history := widget.history w @ [\<lparr>turn.role = ''user'', turn.content = input w\<rparr>],
        input := [], loading := True\<rparr>)"
  using assms by (simp add: sendMessage_def agentChat_def Let_def)

text \<open>
  Claim C9. A failed network call should leave exactly one new agent turn with the fixed
  apology in the history. A response that is not ok does (\<open>non_2xx_gets_apology\<close>). A
  transport error does not: \<^verbatim>\<open>fetch\<close> rejects, nothing catches the rejection, and
  \<^verbatim>\<open>sendMessage\<close> stops after the user turn, with no agent turn and \<open>loading\<close> left set.
\<close>

theorem transport_error_leaves_no_agent_turn:
  "sendMessage (\<lambda>q h. Rejected (TypeError ''Failed to fetch'')) example_widget =
     (Some (TypeError ''Failed to fetch''),
      \<lparr>is_open = True, input = [], loading = True,
       history = [\<lparr>turn.role = ''user'', turn.content = ''hello''\<rparr>]\<rparr>)"
  by (simp add: sendMessage_def agentChat_def example_widget_def blank_def)

end
